theory Spec2Isabelle
  imports Main
begin

section \<open>Python string primitives used by archivebot.py\<close>

text \<open>
  Strings are lists of 8-bit characters, the code points below 256. The case mapping and
  the whitespace class are those of Python's \<^verbatim>\<open>str\<close> on these code points:
  \<^verbatim>\<open>lower()\<close> maps A to Z and the capitals from U+00C0 to U+00DE, the multiplication
  sign U+00D7 apart, to the code point 32 above.
\<close>

definition lower_char :: "char \<Rightarrow> char" where
  "lower_char c =
     (let n = (of_char c :: nat) in
      if (65 \<le> n \<and> n \<le> 90) \<or> (192 \<le> n \<and> n \<le> 222 \<and> n \<noteq> 215)
      then char_of (n + 32) else c)"

definition ascii_lower :: "char \<Rightarrow> char" where
  \<comment> \<open>the case folding of SQLite's LIKE: the letters A to Z only\<close>
  "ascii_lower c =
     (let n = (of_char c :: nat) in if 65 \<le> n \<and> n \<le> 90 then char_of (n + 32) else c)"

definition py_lower :: "string \<Rightarrow> string" where
  "py_lower s = map lower_char s"

definition is_space :: "char \<Rightarrow> bool" where
  "is_space c \<longleftrightarrow>
     c \<in> set [CHR 0x09, CHR 0x0A, CHR 0x0B, CHR 0x0C, CHR 0x0D,
               CHR 0x1C, CHR 0x1D, CHR 0x1E, CHR 0x1F, CHR 0x20, CHR 0x85, CHR 0xA0]"

text \<open>\<^verbatim>\<open>s.split()\<close>: the maximal runs of non-whitespace characters.\<close>

fun split_ws_from :: "string \<Rightarrow> string \<Rightarrow> string list" where
  "split_ws_from cur [] = (if cur = [] then [] else [cur])"
| "split_ws_from cur (c # cs) =
     (if is_space c then (if cur = [] then split_ws_from [] cs else cur # split_ws_from [] cs)
      else split_ws_from (cur @ [c]) cs)"

definition py_split :: "string \<Rightarrow> string list" where
  "py_split s = split_ws_from [] s"

text \<open>\<^verbatim>\<open>s.split(sep)\<close> for a one-character separator: never empty.\<close>

fun split_on_from :: "char \<Rightarrow> string \<Rightarrow> string \<Rightarrow> string list" where
  "split_on_from sep cur [] = [cur]"
| "split_on_from sep cur (c # cs) =
     (if c = sep then cur # split_on_from sep [] cs else split_on_from sep (cur @ [c]) cs)"

definition split_on :: "char \<Rightarrow> string \<Rightarrow> string list" where
  "split_on sep s = split_on_from sep [] s"

definition py_replace :: "char \<Rightarrow> string \<Rightarrow> string" where
  \<comment> \<open>\<^verbatim>\<open>s.replace(c, '')\<close>\<close>
  "py_replace c s = filter (\<lambda>x. x \<noteq> c) s"

definition py_strip :: "string \<Rightarrow> string" where
  "py_strip s = rev (dropWhile is_space (rev (dropWhile is_space s)))"

fun py_join :: "string \<Rightarrow> string list \<Rightarrow> string" where
  "py_join sep [] = []"
| "py_join sep [x] = x"
| "py_join sep (x # y # ys) = x @ sep @ py_join sep (y # ys)"

definition digit_val :: "char \<Rightarrow> nat option" where
  "digit_val c = map_of (zip ''0123456789'' [0, 1, 2, 3, 4, 5, 6, 7, 8, 9]) c"

text \<open>
  \<^verbatim>\<open>int(s)\<close> in base 10: surrounding whitespace, an optional sign, then decimal digits in
  which single underscores may separate digits; more than 4300 digits are refused.
  \<open>None\<close> stands for the ValueError.
\<close>

fun parse_digits :: "nat \<Rightarrow> bool \<Rightarrow> string \<Rightarrow> nat option" where
  "parse_digits acc prev [] = (if prev then Some acc else None)"
| "parse_digits acc prev (c # cs) =
     (if c = CHR ''_'' then (if prev \<and> cs \<noteq> [] then parse_digits acc False cs else None)
      else (case digit_val c of
              None \<Rightarrow> None
            | Some d \<Rightarrow> parse_digits (10 * acc + d) True cs))"

definition parse_number :: "string \<Rightarrow> nat option" where
  "parse_number ds =
     (if 4300 < length (filter (\<lambda>c. c \<noteq> CHR ''_'') ds) then None
      else parse_digits 0 False ds)"

definition py_int :: "string \<Rightarrow> int option" where
  "py_int s =
     (case py_strip s of
        [] \<Rightarrow> None
      | c # cs \<Rightarrow>
          if c = CHR ''-'' then map_option (\<lambda>n. - int n) (parse_number cs)
          else if c = CHR ''+'' then map_option int (parse_number cs)
          else map_option int (parse_number (c # cs)))"

text \<open>Byte-wise comparison of strings, the order of SQLite's default collation.\<close>

fun str_le :: "string \<Rightarrow> string \<Rightarrow> bool" where
  "str_le [] t = True"
| "str_le (a # as) [] = False"
| "str_le (a # as) (b # bs) =
     ((of_char a :: nat) < of_char b \<or> (a = b \<and> str_le as bs))"

section \<open>Exceptions\<close>

datatype error =
    ValueError string
  | IndexError
  | KeyError string
  | TypeError
  | AttributeError
  | OverflowError
  | OperationalError string

section \<open>The archive store\<close>

text \<open>
  All columns are declared \<^verbatim>\<open>text\<close> and every value the program binds is a string, so a
  row is a list of strings in column order. The messages table keeps its column list and
  its replace-on-conflict uniqueness constraints: the program creates it only
  \<^verbatim>\<open>if not exists\<close>, so a table already in the database file stays as it is.
\<close>

type_synonym row = "string list"

record table =
  cols :: "string list"
  uniq :: "string list list"
  rows :: "row list"

definition messages_schema :: table where
  \<comment> \<open>line 33: \<^verbatim>\<open>messages (message text, user text, channel text, timestamp text,
      UNIQUE(channel, timestamp) ON CONFLICT REPLACE)\<close>\<close>
  "messages_schema =
     \<lparr>cols = [''message'', ''user'', ''channel'', ''timestamp''],
      uniq = [[''channel'', ''timestamp'']],
      rows = []\<rparr>"

definition create_messages_if_not_exists :: "table option \<Rightarrow> table" where
  "create_messages_if_not_exists existing =
     (case existing of None \<Rightarrow> messages_schema | Some t \<Rightarrow> t)"

fun col_index :: "string list \<Rightarrow> string \<Rightarrow> nat option" where
  "col_index [] c = None"
| "col_index (x # xs) c = (if x = c then Some 0 else map_option Suc (col_index xs c))"

definition cell :: "table \<Rightarrow> row \<Rightarrow> string \<Rightarrow> string option" where
  "cell t r c = (case col_index (cols t) c of
                   None \<Rightarrow> None
                 | Some i \<Rightarrow> if i < length r then Some (r ! i) else None)"

definition conflicts :: "table \<Rightarrow> row \<Rightarrow> row \<Rightarrow> bool" where
  \<comment> \<open>two rows agree on every column of one of the uniqueness constraints\<close>
  "conflicts t r r' \<longleftrightarrow>
     list_ex (\<lambda>u. list_all (\<lambda>c. cell t r c \<noteq> None \<and> cell t r c = cell t r' c) u) (uniq t)"

fun decimal :: "nat \<Rightarrow> string" where
  "decimal n =
     (if n < 10 then [char_of (48 + n)] else decimal (n div 10) @ [char_of (48 + n mod 10)])"

definition insert_values :: "table \<Rightarrow> row \<Rightarrow> error + table" where
  \<comment> \<open>\<^verbatim>\<open>INSERT INTO messages VALUES(...)\<close>: one value per column of the table; a row
      that agrees with the new one on a uniqueness constraint is replaced\<close>
  "insert_values t vals =
     (if length vals \<noteq> length (cols t)
      then Inl (OperationalError
                 (''table messages has '' @ decimal (length (cols t)) @ '' columns but ''
                    @ decimal (length vals) @ '' values were supplied''))
      else Inr (t\<lparr>rows := filter (\<lambda>r. \<not> conflicts t r vals) (rows t) @ [vals]\<rparr>))"

text \<open>
  The LIKE operator: \<^verbatim>\<open>%\<close> matches any run of characters, \<^verbatim>\<open>_\<close> any one character, and
  the letters A to Z match without regard to case. SQLite reads both operands as
  C strings, so each ends at its first NUL character.
\<close>

fun like_match :: "string \<Rightarrow> string \<Rightarrow> bool" where
  "like_match [] s = (s = [])"
| "like_match (p # ps) [] = (p = CHR ''%'' \<and> like_match ps [])"
| "like_match (p # ps) (c # cs) =
     (if p = CHR ''%'' then like_match ps (c # cs) \<or> like_match (p # ps) cs
      else (p = CHR ''_'' \<or> ascii_lower p = ascii_lower c) \<and> like_match ps cs)"

definition c_string :: "string \<Rightarrow> string" where
  "c_string s = takeWhile (\<lambda>c. c \<noteq> CHR 0x00) s"

definition like :: "string \<Rightarrow> string \<Rightarrow> bool" where
  "like pat s = like_match (c_string pat) (c_string s)"

text \<open>
  The result row of \<^verbatim>\<open>SELECT id,message,user,timestamp,channel FROM messages\<close>, in the
  order the program indexes it (\<^verbatim>\<open>i[0]\<close> to \<^verbatim>\<open>i[4]\<close>).
\<close>

record hit =
  h_id :: string
  h_message :: string
  h_user :: string
  h_timestamp :: string
  h_channel :: string

definition project :: "table \<Rightarrow> row \<Rightarrow> hit option" where
  "project t r =
     (case (cell t r ''id'', cell t r ''message'', cell t r ''user'',
            cell t r ''timestamp'', cell t r ''channel'') of
        (Some i, Some m, Some u, Some s, Some c) \<Rightarrow>
          Some \<lparr>h_id = i, h_message = m, h_user = u, h_timestamp = s, h_channel = c\<rparr>
      | _ \<Rightarrow> None)"

text \<open>
  The two statements the program builds. A filter is added only when the Python value is
  truthy (\<^verbatim>\<open>if user:\<close>, \<^verbatim>\<open>if channel:\<close>, \<^verbatim>\<open>if sort:\<close>).
\<close>

datatype query =
    ById string
  | FreeText string "string option" "string option" "string option"

definition truthy :: "string option \<Rightarrow> bool" where
  "truthy v = (case v of None \<Rightarrow> False | Some s \<Rightarrow> s \<noteq> [])"

fun matches :: "query \<Rightarrow> hit \<Rightarrow> bool" where
  "matches (ById uid) h = like uid (h_id h)"
| "matches (FreeText pat usr chn srt) h =
     (like pat (h_message h)
      \<and> (if truthy usr then Some (h_user h) = usr else True)
      \<and> (if truthy chn then Some (h_channel h) = chn else True))"

text \<open>
  \<^verbatim>\<open>ORDER BY timestamp asc\<close> and \<^verbatim>\<open>desc\<close>, as an insertion sort that keeps rows with equal
  timestamps in the order of the scan.
\<close>

fun insert_by :: "(string \<Rightarrow> string \<Rightarrow> bool) \<Rightarrow> hit \<Rightarrow> hit list \<Rightarrow> hit list" where
  "insert_by le h [] = [h]"
| "insert_by le h (x # xs) =
     (if le (h_timestamp h) (h_timestamp x) then h # x # xs else x # insert_by le h xs)"

definition sort_by :: "(string \<Rightarrow> string \<Rightarrow> bool) \<Rightarrow> hit list \<Rightarrow> hit list" where
  "sort_by le hs = foldr (insert_by le) hs []"

text \<open>
  The order in which the matching rows are read. An identifier lookup and a search
  without channel filter scan the table in insertion order. With the filter
  \<^verbatim>\<open>channel=(?)\<close> SQLite searches the index of \<^verbatim>\<open>UNIQUE(channel, timestamp)\<close>, when the
  table has it, and the rows of that channel come in timestamp order.
\<close>

fun scan_order :: "table \<Rightarrow> query \<Rightarrow> hit list \<Rightarrow> hit list" where
  "scan_order t (ById uid) hs = hs"
| "scan_order t (FreeText pat usr chn srt) hs =
     (if truthy chn \<and> [''channel'', ''timestamp''] \<in> set (uniq t) then sort_by str_le hs else hs)"

fun order_by :: "query \<Rightarrow> hit list \<Rightarrow> hit list" where
  "order_by (ById uid) hs = hs"
| "order_by (FreeText pat usr chn srt) hs =
     (if srt = Some ''desc'' then sort_by (\<lambda>a b. str_le b a) hs
      else if srt = Some ''asc'' then sort_by str_le hs
      else hs)"

definition select_messages :: "table \<Rightarrow> query \<Rightarrow> error + hit list" where
  \<comment> \<open>\<^verbatim>\<open>cursor.execute(query, query_args)\<close>: every selected column must exist\<close>
  "select_messages t q =
     (case filter (\<lambda>c. c \<notin> set (cols t)) [''id'', ''message'', ''user'', ''timestamp'', ''channel''] of
        c # _ \<Rightarrow> Inl (OperationalError (''no such column: '' @ c))
      | [] \<Rightarrow>
          Inr (order_by q (scan_order t q (filter (matches q) (List.map_filter (project t) (rows t))))))"

definition fetchmany :: "int \<Rightarrow> hit list \<Rightarrow> error + hit list" where
  \<comment> \<open>\<^verbatim>\<open>cursor.fetchmany(size)\<close>: the size is a C int; the cursor appends rows until its
      counter equals the size, so a size below 1 is never reached\<close>
  "fetchmany n hs =
     (if n < - (2 ^ 31) \<or> 2 ^ 31 \<le> n then Inl OverflowError
      else if 0 < n then Inr (take (nat n) hs)
      else Inr hs)"

section \<open>Collaborators and process state\<close>

text \<open>
  What the messaging backend returns for \<^verbatim>\<open>users.list\<close>, \<^verbatim>\<open>channels.list\<close> and
  \<^verbatim>\<open>groups.list\<close>. The objects are JSON dictionaries, so a field is \<open>None\<close> when the key is
  missing. For \<open>cv_is_group\<close> only the presence of the key is read.
\<close>

record member =
  mb_name :: "string option"
  mb_id :: "string option"
  mb_profile :: "string option option"

record conversation =
  cv_name :: "string option"
  cv_id :: "string option"
  cv_is_group :: "bool option"
  cv_is_private :: "bool option"
  cv_members :: "string list option"

text \<open>
  The backend answers and the pieces of the Python runtime that depend on the platform:
  \<open>query_time n\<close> is \<^verbatim>\<open>datetime.fromtimestamp(n).strftime('%Y-%m-%d %H:%M:%S')\<close>,
  \<open>notice_time s\<close> is \<^verbatim>\<open>datetime.fromtimestamp(float(s)).strftime("%m/%d/%Y, %H:%M:%S %p")\<close>,
  and \<open>int_error s\<close> is the text of the ValueError that \<^verbatim>\<open>int(s)\<close> raises.
\<close>

record backend =
  api_users :: "member list"
  api_channels :: "conversation list"
  api_groups :: "conversation list"
  query_time :: "int \<Rightarrow> error + string"
  notice_time :: "string \<Rightarrow> error + string"
  int_error :: "string \<Rightarrow> string"

record visibility =
  is_private :: bool
  members :: "string list"

datatype store_access =
    Execute_select
  | Executemany_users
  | Executemany_channels
  | Executemany_messages
  | Commit

text \<open>
  The process state: the five dictionaries of \<^verbatim>\<open>ENV\<close>, the three tables, the statements
  sent to the database connection so far, the messages posted with \<^verbatim>\<open>chat.postMessage\<close>
  as (text, channel) and the lines appended to \<^verbatim>\<open>logs.txt\<close>. A dictionary is an
  association list read with \<open>map_of\<close>, so the first pair of a key is its binding.
\<close>

record world =
  user_id :: "(string \<times> string) list"
  id_user :: "(string \<times> string) list"
  channel_id :: "(string \<times> string) list"
  id_channel :: "(string \<times> string) list"
  channel_info :: "(string \<times> visibility) list"
  messages :: table
  users :: "(string \<times> string \<times> string) list"
  channels :: "(string \<times> string) list"
  store_log :: "store_access list"
  outbox :: "(string \<times> string) list"
  logs_txt :: "string list"

definition dict_of :: "('k \<times> 'v) list \<Rightarrow> ('k \<times> 'v) list" where
  \<comment> \<open>\<^verbatim>\<open>dict(pairs)\<close>: a later pair of a key replaces an earlier one\<close>
  "dict_of ps = rev ps"

definition lookup :: "(string \<times> 'v) list \<Rightarrow> string option \<Rightarrow> 'v option" where
  \<comment> \<open>\<^verbatim>\<open>d.get(k, None)\<close>, where \<open>k\<close> may be Python's None, which is no key of \<open>d\<close>\<close>
  "lookup d k = (case k of None \<Rightarrow> None | Some s \<Rightarrow> map_of d s)"

section \<open>Directory cache\<close>

definition default_avatar :: string where
  "default_avatar = ''https://secure.gravatar.com/avatar/c3a07fba0c4787b0ef1d417838eae9c5.jpg?s=32&d=https%3A%2F%2Ffst.slack-edge.com%2F66f9%2Fimg%2Favatars%2Fava_0024-32.png''"

fun member_pairs :: "member list \<Rightarrow> error + (string \<times> string) list" where
  "member_pairs [] = Inr []"
| "member_pairs (m # ms) =
     (case mb_name m of
        None \<Rightarrow> Inl (KeyError ''name'')
      | Some n \<Rightarrow>
          (case mb_id m of
             None \<Rightarrow> Inl (KeyError ''id'')
           | Some i \<Rightarrow>
               (case member_pairs ms of
                  Inl e \<Rightarrow> Inl e
                | Inr ps \<Rightarrow> Inr ((n, i) # ps))))"

fun member_rows :: "member list \<Rightarrow> error + (string \<times> string \<times> string) list" where
  "member_rows [] = Inr []"
| "member_rows (m # ms) =
     (case mb_name m of
        None \<Rightarrow> Inl (KeyError ''name'')
      | Some n \<Rightarrow>
          (case mb_id m of
             None \<Rightarrow> Inl (KeyError ''id'')
           | Some i \<Rightarrow>
               (case mb_profile m of
                  None \<Rightarrow> Inl (KeyError ''profile'')
                | Some img \<Rightarrow>
                    (case member_rows ms of
                       Inl e \<Rightarrow> Inl e
                     | Inr rs \<Rightarrow>
                         Inr ((n, i, (case img of None \<Rightarrow> default_avatar | Some a \<Rightarrow> a)) # rs)))))"

definition upsert_user ::
  "(string \<times> string \<times> string) list \<Rightarrow> string \<times> string \<times> string \<Rightarrow> (string \<times> string \<times> string) list" where
  \<comment> \<open>\<^verbatim>\<open>users\<close> is UNIQUE(id) ON CONFLICT REPLACE\<close>
  "upsert_user rs r = filter (\<lambda>x. fst (snd x) \<noteq> fst (snd r)) rs @ [r]"

definition upsert_channel :: "(string \<times> string) list \<Rightarrow> string \<times> string \<Rightarrow> (string \<times> string) list" where
  \<comment> \<open>\<^verbatim>\<open>channels\<close> is UNIQUE(id) ON CONFLICT REPLACE\<close>
  "upsert_channel rs r = filter (\<lambda>x. snd x \<noteq> snd r) rs @ [r]"

definition swap_pair :: "string \<times> string \<Rightarrow> string \<times> string" where
  "swap_pair p = (snd p, fst p)"

definition update_users :: "backend \<Rightarrow> world \<Rightarrow> (error + unit) \<times> world" where
  "update_users bk w =
     (case member_pairs (api_users bk) of
        Inl e \<Rightarrow> (Inl e, w)
      | Inr ps \<Rightarrow>
          (let w1 = w\<lparr>user_id := dict_of ps, id_user := dict_of (map swap_pair ps)\<rparr> in
           case member_rows (api_users bk) of
             Inl e \<Rightarrow> (Inl e, w1)
           | Inr args \<Rightarrow>
               (Inr (), w1\<lparr>users := foldl upsert_user (users w1) args,
                            store_log := store_log w1 @ [Executemany_users, Commit]\<rparr>)))"

definition get_user_name :: "backend \<Rightarrow> string \<Rightarrow> world \<Rightarrow> (error + string option) \<times> world" where
  "get_user_name bk uid w =
     (if map_of (id_user w) uid = None
      then (case update_users bk w of
              (Inl e, w1) \<Rightarrow> (Inl e, w1)
            | (Inr u, w1) \<Rightarrow> (Inr (map_of (id_user w1) uid), w1))
      else (Inr (map_of (id_user w) uid), w))"

definition get_user_id :: "backend \<Rightarrow> string \<Rightarrow> world \<Rightarrow> (error + string option) \<times> world" where
  "get_user_id bk name w =
     (if map_of (user_id w) name = None
      then (case update_users bk w of
              (Inl e, w1) \<Rightarrow> (Inl e, w1)
            | (Inr u, w1) \<Rightarrow> (Inr (map_of (user_id w1) name), w1))
      else (Inr (map_of (user_id w) name), w))"

fun conversation_pairs :: "conversation list \<Rightarrow> error + (string \<times> string) list" where
  "conversation_pairs [] = Inr []"
| "conversation_pairs (m # ms) =
     (case cv_name m of
        None \<Rightarrow> Inl (KeyError ''name'')
      | Some n \<Rightarrow>
          (case cv_id m of
             None \<Rightarrow> Inl (KeyError ''id'')
           | Some i \<Rightarrow>
               (case conversation_pairs ms of
                  Inl e \<Rightarrow> Inl e
                | Inr ps \<Rightarrow> Inr ((n, i) # ps))))"

definition private_flag :: "conversation \<Rightarrow> bool option" where
  \<comment> \<open>\<^verbatim>\<open>('is_group' in m) or m['is_private']\<close>; \<open>None\<close> is the KeyError\<close>
  "private_flag m = (if cv_is_group m \<noteq> None then Some True else cv_is_private m)"

text \<open>
  The loop of \<^verbatim>\<open>update_channels\<close> writes one entry of \<^verbatim>\<open>ENV['channel_info']\<close> per
  conversation and stops at the first missing key, keeping the entries written so far.
\<close>

fun record_info ::
  "conversation list \<Rightarrow> (string \<times> visibility) list \<Rightarrow> error option \<times> (string \<times> visibility) list" where
  "record_info [] ci = (None, ci)"
| "record_info (m # ms) ci =
     (case private_flag m of
        None \<Rightarrow> (Some (KeyError ''is_private''), ci)
      | Some priv \<Rightarrow>
          (case cv_members m of
             None \<Rightarrow> (Some (KeyError ''members''), ci)
           | Some mem \<Rightarrow>
               (case cv_id m of
                  None \<Rightarrow> (Some (KeyError ''id''), ci)
                | Some i \<Rightarrow>
                    (case cv_name m of
                       None \<Rightarrow> (Some (KeyError ''name''), (i, \<lparr>is_private = priv, members = mem\<rparr>) # ci)
                     | Some n \<Rightarrow> record_info ms ((i, \<lparr>is_private = priv, members = mem\<rparr>) # ci)))))"

definition update_channels :: "backend \<Rightarrow> world \<Rightarrow> (error + unit) \<times> world" where
  "update_channels bk w =
     (let info = api_channels bk @ api_groups bk in
      case conversation_pairs info of
        Inl e \<Rightarrow> (Inl e, w)
      | Inr ps \<Rightarrow>
          (let w1 = w\<lparr>channel_id := dict_of ps, id_channel := dict_of (map swap_pair ps)\<rparr> in
           case record_info info (channel_info w1) of
             (Some e, ci) \<Rightarrow> (Inl e, w1\<lparr>channel_info := ci\<rparr>)
           | (None, ci) \<Rightarrow>
               (Inr (), w1\<lparr>channel_info := ci,
                            channels := foldl upsert_channel (channels w1) ps,
                            store_log := store_log w1 @ [Executemany_channels, Commit]\<rparr>)))"

definition get_channel_name ::
  "backend \<Rightarrow> string option \<Rightarrow> world \<Rightarrow> (error + string option) \<times> world" where
  "get_channel_name bk uid w =
     (if lookup (id_channel w) uid = None
      then (case update_channels bk w of
              (Inl e, w1) \<Rightarrow> (Inl e, w1)
            | (Inr u, w1) \<Rightarrow> (Inr (lookup (id_channel w1) uid), w1))
      else (Inr (lookup (id_channel w) uid), w))"

definition get_channel_id :: "backend \<Rightarrow> string \<Rightarrow> world \<Rightarrow> (error + string option) \<times> world" where
  "get_channel_id bk name w =
     (if map_of (channel_id w) name = None
      then (case update_channels bk w of
              (Inl e, w1) \<Rightarrow> (Inl e, w1)
            | (Inr u, w1) \<Rightarrow> (Inr (map_of (channel_id w1) name), w1))
      else (Inr (map_of (channel_id w) name), w))"

definition send_message :: "string \<Rightarrow> string \<Rightarrow> world \<Rightarrow> world" where
  "send_message message channel w = w\<lparr>outbox := outbox w @ [(message, channel)]\<rparr>"

definition convert_timestamp :: "backend \<Rightarrow> string \<Rightarrow> error + string" where
  "convert_timestamp bk ts =
     (let s = hd (split_on CHR ''.'' ts) in
      case py_int s of
        None \<Rightarrow> Inl (ValueError (int_error bk s))
      | Some n \<Rightarrow> query_time bk n)"

text \<open>
  \<^verbatim>\<open>can_query_channel\<close> has no \<^verbatim>\<open>else\<close>: for a channel that is not a key of
  \<^verbatim>\<open>ENV['id_channel']\<close> it returns Python's None, here \<open>Inr None\<close>. The KeyError is the
  subscript \<^verbatim>\<open>ENV['channel_info'][channel_id]\<close>.
\<close>

definition can_query_channel :: "world \<Rightarrow> string \<Rightarrow> string \<Rightarrow> error + bool option" where
  "can_query_channel w cid uid =
     (if map_of (id_channel w) cid \<noteq> None
      then (case map_of (channel_info w) cid of
              None \<Rightarrow> Inl (KeyError cid)
            | Some v \<Rightarrow> Inr (Some ((\<not> is_private v) \<or> uid \<in> set (members v))))
      else Inr None)"

section \<open>Inbound events\<close>

text \<open>
  An event is a JSON dictionary; a field is \<open>None\<close> when the key is missing. The nested
  objects under \<^verbatim>\<open>message\<close> and \<^verbatim>\<open>previous_message\<close> are read with \<^verbatim>\<open>.get\<close>.
\<close>

record submessage =
  m_text :: "string option"
  m_user :: "string option"
  m_ts :: "string option"

record event =
  ev_subtype :: "string option"
  ev_text :: "string option"
  ev_channel :: "string option"
  ev_user :: "string option"
  ev_ts :: "string option"
  ev_message :: "submessage option"
  ev_previous_message :: "submessage option"

section \<open>Query language and executor\<close>

record plan =
  p_text :: "string list"
  p_user :: "string option"
  p_channel :: "string option"
  p_sort :: "string option"
  p_limit :: int

definition initial_plan :: plan where
  "initial_plan = \<lparr>p_text = [], p_user = None, p_channel = None, p_sort = None, p_limit = 10\<rparr>"

definition is_emoji :: "string \<Rightarrow> bool" where
  \<comment> \<open>\<^verbatim>\<open>len(p) > 2 and p[0] == ':' and p[-1] == ':'\<close>\<close>
  "is_emoji p \<longleftrightarrow> 2 < length p \<and> hd p = CHR '':'' \<and> last p = CHR '':''"

text \<open>
  One round of the loop over \<^verbatim>\<open>params\<close>. The four tests on \<^verbatim>\<open>p[0]\<close> exclude each
  other, so the chain of \<^verbatim>\<open>if\<close>s is written as one cascade.
\<close>

definition parse_token :: "backend \<Rightarrow> string \<Rightarrow> plan \<Rightarrow> world \<Rightarrow> (error + plan) \<times> world" where
  "parse_token bk p pl w =
     (if is_emoji p then (Inr (pl\<lparr>p_text := p_text pl @ [p]\<rparr>), w)
      else
        (let q = split_on CHR '':'' p in
         if length q = 1 then (Inr (pl\<lparr>p_text := p_text pl @ [q ! 0]\<rparr>), w)
         else if length q = 2 then
           (if q ! 0 = ''from'' then
              (case get_user_id bk (py_strip (py_replace CHR ''@'' (q ! 1))) w of
                 (Inl e, w1) \<Rightarrow> (Inl e, w1)
               | (Inr None, w1) \<Rightarrow> (Inl (ValueError (''User '' @ q ! 1 @ '' not found'')), w1)
               | (Inr (Some u), w1) \<Rightarrow> (Inr (pl\<lparr>p_user := Some u\<rparr>), w1))
            else if q ! 0 = ''in'' then
              (case get_channel_id bk (py_strip (py_replace CHR ''#'' (q ! 1))) w of
                 (Inl e, w1) \<Rightarrow> (Inl e, w1)
               | (Inr None, w1) \<Rightarrow> (Inl (ValueError (''Channel '' @ q ! 1 @ '' not found'')), w1)
               | (Inr (Some c), w1) \<Rightarrow> (Inr (pl\<lparr>p_channel := Some c\<rparr>), w1))
            else if q ! 0 = ''sort'' then
              (if q ! 1 = ''asc'' \<or> q ! 1 = ''desc'' then (Inr (pl\<lparr>p_sort := Some (q ! 1)\<rparr>), w)
               else (Inl (ValueError (''Invalid sort order '' @ q ! 1)), w))
            else if q ! 0 = ''limit'' then
              (case py_int (q ! 1) of
                 None \<Rightarrow> (Inl (ValueError (q ! 1 @ '' not a valid number'')), w)
               | Some n \<Rightarrow> (Inr (pl\<lparr>p_limit := n\<rparr>), w))
            else (Inr pl, w))
         else (Inr pl, w)))"

fun parse_tokens :: "backend \<Rightarrow> string list \<Rightarrow> plan \<Rightarrow> world \<Rightarrow> (error + plan) \<times> world" where
  "parse_tokens bk [] pl w = (Inr pl, w)"
| "parse_tokens bk (p # ps) pl w =
     (case parse_token bk p pl w of
        (Inl e, w1) \<Rightarrow> (Inl e, w1)
      | (Inr pl1, w1) \<Rightarrow> parse_tokens bk ps pl1 w1)"

definition free_text_query :: "plan \<Rightarrow> query" where
  "free_text_query pl =
     FreeText (''%'' @ py_join '' '' (p_text pl) @ ''%'') (p_user pl) (p_channel pl) (p_sort pl)"

text \<open>
  Lines 158 to 211: the statement to run and the fetch size. In the \<^verbatim>\<open>id:\<close> branch the
  first token has a colon, so \<^verbatim>\<open>params[0].split(':')[1]\<close> exists.
\<close>

definition parse_query :: "backend \<Rightarrow> event \<Rightarrow> world \<Rightarrow> (error + query \<times> int) \<times> world" where
  "parse_query bk e w =
     (case ev_text e of
        None \<Rightarrow> (Inl (KeyError ''text''), w)
      | Some t \<Rightarrow>
          (case py_split (py_lower t) of
             [] \<Rightarrow> (Inl IndexError, w)
           | p0 # ps \<Rightarrow>
               if take 3 p0 = ''id:'' then (Inr (ById (split_on CHR '':'' p0 ! 1), 10), w)
               else
                 (case parse_tokens bk (p0 # ps) initial_plan w of
                    (Inl err, w1) \<Rightarrow> (Inl err, w1)
                  | (Inr pl, w1) \<Rightarrow> (Inr (free_text_query pl, p_limit pl), w1))))"

definition run_query :: "query \<Rightarrow> int \<Rightarrow> world \<Rightarrow> (error + hit list) \<times> world" where
  \<comment> \<open>\<^verbatim>\<open>cursor.execute(query, query_args)\<close>, then \<^verbatim>\<open>cursor.fetchmany(limit)\<close>\<close>
  "run_query q limit w =
     (let w1 = w\<lparr>store_log := store_log w @ [Execute_select]\<rparr> in
      case select_messages (messages w) q of
        Inl err \<Rightarrow> (Inl err, w1)
      | Inr hs \<Rightarrow>
          (case fetchmany limit hs of
             Inl err \<Rightarrow> (Inl err, w1)
           | Inr res \<Rightarrow> (Inr res, w1)))"

definition format_hit :: "hit \<Rightarrow> string option \<Rightarrow> string \<Rightarrow> string \<Rightarrow> string" where
  \<comment> \<open>\<^verbatim>\<open>'%s (@%s, %s, %s, %s)'\<close>\<close>
  "format_hit h name time cname =
     h_message h @ '' (@'' @ (case name of None \<Rightarrow> ''None'' | Some n \<Rightarrow> n) @ '', '' @ time
       @ '', '' @ (''#'' @ cname) @ '', '' @ (''id:'' @ h_id h) @ '')''"

definition render_hit :: "backend \<Rightarrow> hit \<Rightarrow> world \<Rightarrow> (error + string) \<times> world" where
  "render_hit bk h w =
     (case get_user_name bk (h_user h) w of
        (Inl err, w1) \<Rightarrow> (Inl err, w1)
      | (Inr name, w1) \<Rightarrow>
          (case convert_timestamp bk (h_timestamp h) of
             Inl err \<Rightarrow> (Inl err, w1)
           | Inr time \<Rightarrow>
               (case get_channel_name bk (Some (h_channel h)) w1 of
                  (Inl err, w2) \<Rightarrow> (Inl err, w2)
                | (Inr None, w2) \<Rightarrow> (Inl TypeError, w2)
                | (Inr (Some cname), w2) \<Rightarrow> (Inr (format_hit h name time cname), w2))))"

text \<open>
  The list comprehension of lines 223 to 225: for each fetched row the condition
  \<^verbatim>\<open>can_query_channel(i[4], event['user'])\<close> is evaluated first, and the row is rendered
  only when the condition is truthy.
\<close>

fun render_hits :: "backend \<Rightarrow> event \<Rightarrow> hit list \<Rightarrow> world \<Rightarrow> (error + string list) \<times> world" where
  "render_hits bk e [] w = (Inr [], w)"
| "render_hits bk e (h # hs) w =
     (case ev_user e of
        None \<Rightarrow> (Inl (KeyError ''user''), w)
      | Some u \<Rightarrow>
          (case can_query_channel w (h_channel h) u of
             Inl err \<Rightarrow> (Inl err, w)
           | Inr c \<Rightarrow>
               if c = Some True then
                 (case render_hit bk h w of
                    (Inl err, w1) \<Rightarrow> (Inl err, w1)
                  | (Inr line, w1) \<Rightarrow>
                      (case render_hits bk e hs w1 of
                         (Inl err, w2) \<Rightarrow> (Inl err, w2)
                       | (Inr lines, w2) \<Rightarrow> (Inr (line # lines), w2)))
               else render_hits bk e hs w))"

definition reply :: "event \<Rightarrow> string \<Rightarrow> world \<Rightarrow> (error + unit) \<times> world" where
  \<comment> \<open>\<^verbatim>\<open>send_message(text, event['channel'])\<close>\<close>
  "reply e message w =
     (case ev_channel e of
        None \<Rightarrow> (Inl (KeyError ''channel''), w)
      | Some ch \<Rightarrow> (Inr (), send_message message ch w))"

text \<open>
  The body of the \<^verbatim>\<open>try\<close>. An empty \<^verbatim>\<open>res\<close> renders no line, and the joined text of no
  lines is empty, so both \<^verbatim>\<open>if res:\<close> and \<^verbatim>\<open>if res_message:\<close> are the test on the joined
  text.
\<close>

definition handle_query_try :: "backend \<Rightarrow> event \<Rightarrow> world \<Rightarrow> (error + unit) \<times> world" where
  "handle_query_try bk e w =
     (case parse_query bk e w of
        (Inl err, w1) \<Rightarrow> (Inl err, w1)
      | (Inr (q, limit), w1) \<Rightarrow>
          (case run_query q limit w1 of
             (Inl err, w2) \<Rightarrow> (Inl err, w2)
           | (Inr res, w2) \<Rightarrow>
               (case render_hits bk e res w2 of
                  (Inl err, w3) \<Rightarrow> (Inl err, w3)
                | (Inr lines, w3) \<Rightarrow>
                    (let res_message = py_join [CHR 0x0A] lines in
                     if res_message \<noteq> [] then reply e res_message w3
                     else reply e ''No results found'' w3))))"

definition handle_query :: "backend \<Rightarrow> event \<Rightarrow> world \<Rightarrow> (error + unit) \<times> world" where
  \<comment> \<open>\<^verbatim>\<open>except ValueError as e: send_message(str(e), event['channel'])\<close>\<close>
  "handle_query bk e w =
     (case handle_query_try bk e w of
        (Inl err, w1) \<Rightarrow>
          (case err of
             ValueError msg \<Rightarrow> reply e msg w1
           | _ \<Rightarrow> (Inl err, w1))
      | (Inr u, w1) \<Rightarrow> (Inr u, w1))"

section \<open>Event dispatcher\<close>

definition get_user :: "string option \<Rightarrow> string" where
  "get_user i =
     (if i = Some ''U15HY5TG8'' then ''Evan''
      else if i = Some ''U15HSHSS2'' then ''Tommy''
      else if i = Some ''U15HZ01QX'' then ''James''
      else if i = Some ''U15J5H60P'' then ''Andrew''
      else if i = Some ''U15HRTAHL'' then ''Joe''
      else (case i of Some s \<Rightarrow> s | None \<Rightarrow> ''bot''))"

definition ops_channel :: string where
  "ops_channel = ''CJ9745N3U''"

definition bot_mention :: string where
  "bot_mention = ''<@UJ8U80MKL>''"

definition sent_on :: "backend \<Rightarrow> submessage \<Rightarrow> error + string" where
  \<comment> \<open>the time of \<^verbatim>\<open>previous_message\<close>: \<^verbatim>\<open>float(None)\<close> is a TypeError\<close>
  "sent_on bk pm = (case m_ts pm of None \<Rightarrow> Inl TypeError | Some s \<Rightarrow> notice_time bk s)"

text \<open>
  Lines 253 and 254. The operands of the string concatenation are evaluated from left to
  right, and adding None to a string is a TypeError.
\<close>

definition deleted_notice :: "backend \<Rightarrow> event \<Rightarrow> world \<Rightarrow> (error + unit) \<times> world" where
  "deleted_notice bk e w =
     (case ev_previous_message e of
        None \<Rightarrow> (Inl AttributeError, w)
      | Some pm \<Rightarrow>
          (case sent_on bk pm of
             Inl err \<Rightarrow> (Inl err, w)
           | Inr time \<Rightarrow>
               (case get_channel_name bk (ev_channel e) w of
                  (Inl err, w1) \<Rightarrow> (Inl err, w1)
                | (Inr None, w1) \<Rightarrow> (Inl TypeError, w1)
                | (Inr (Some cname), w1) \<Rightarrow>
                    (case m_text pm of
                       None \<Rightarrow> (Inl TypeError, w1)
                     | Some body \<Rightarrow>
                         (Inr (),
                          send_message
                            (''The following message from @'' @ get_user (m_user pm) @ '' (sent on ''
                               @ time @ '') was deleted from #'' @ cname @ [CHR 0x0A] @ ''>'' @ body
                               @ [CHR 0x0A])
                            ops_channel w1)))))"

text \<open>Lines 256 and 257.\<close>

definition changed_notice :: "backend \<Rightarrow> event \<Rightarrow> world \<Rightarrow> (error + unit) \<times> world" where
  "changed_notice bk e w =
     (case ev_message e of
        None \<Rightarrow> (Inl AttributeError, w)
      | Some msg \<Rightarrow>
          (case ev_previous_message e of
             None \<Rightarrow> (Inl AttributeError, w)
           | Some pm \<Rightarrow>
               (case sent_on bk pm of
                  Inl err \<Rightarrow> (Inl err, w)
                | Inr time \<Rightarrow>
                    (case get_channel_name bk (ev_channel e) w of
                       (Inl err, w1) \<Rightarrow> (Inl err, w1)
                     | (Inr None, w1) \<Rightarrow> (Inl TypeError, w1)
                     | (Inr (Some cname), w1) \<Rightarrow>
                         (case m_text pm of
                            None \<Rightarrow> (Inl TypeError, w1)
                          | Some old_body \<Rightarrow>
                              (case m_text msg of
                                 None \<Rightarrow> (Inl TypeError, w1)
                               | Some new_body \<Rightarrow>
                                   (Inr (),
                                    send_message
                                      (''@'' @ get_user (m_user msg) @ '' edited their message (sent on ''
                                         @ time @ '') from #'' @ cname @ '': '' @ [CHR 0x0A] @ ''>''
                                         @ old_body @ [CHR 0x0A] @ '' to say: '' @ [CHR 0x0A] @ ''>''
                                         @ new_body)
                                      ops_channel w1)))))))"

text \<open>
  The compiled pattern of line 270, used with \<^verbatim>\<open>match\<close> and \<^verbatim>\<open>re.I\<close>: the start of
  the string has the shape of a version-4 UUID, in either case.
\<close>

definition is_hex :: "char \<Rightarrow> bool" where
  "is_hex c \<longleftrightarrow> lower_char c \<in> set ''0123456789abcdef''"

definition is_dash :: "char \<Rightarrow> bool" where
  "is_dash c \<longleftrightarrow> c = CHR ''-''"

definition is_four :: "char \<Rightarrow> bool" where
  "is_four c \<longleftrightarrow> c = CHR ''4''"

definition is_variant :: "char \<Rightarrow> bool" where
  "is_variant c \<longleftrightarrow> lower_char c \<in> set ''89ab''"

fun match_classes :: "(char \<Rightarrow> bool) list \<Rightarrow> string \<Rightarrow> bool" where
  "match_classes [] s = True"
| "match_classes (p # ps) [] = False"
| "match_classes (p # ps) (c # cs) = (p c \<and> match_classes ps cs)"

definition uuid4hex :: "(char \<Rightarrow> bool) list" where
  "uuid4hex =
     replicate 8 is_hex @ [is_dash] @ replicate 4 is_hex @ [is_dash]
     @ [is_four] @ replicate 3 is_hex @ [is_dash]
     @ [is_variant] @ replicate 3 is_hex @ [is_dash] @ replicate 12 is_hex"

definition uuid4hex_match :: "string \<Rightarrow> bool" where
  "uuid4hex_match s = match_classes uuid4hex s"

text \<open>
  Lines 280 to 283. \<open>uid\<close> is the value of \<^verbatim>\<open>str(uuid.uuid4())\<close> for this event. The
  statement supplies five values in table order.
\<close>

definition archive :: "string \<Rightarrow> event \<Rightarrow> world \<Rightarrow> (error + unit) \<times> world" where
  "archive uid e w =
     (case ev_text e of
        None \<Rightarrow> (Inl (KeyError ''text''), w)
      | Some t \<Rightarrow>
          (case ev_user e of
             None \<Rightarrow> (Inl (KeyError ''user''), w)
           | Some u \<Rightarrow>
               (case ev_channel e of
                  None \<Rightarrow> (Inl (KeyError ''channel''), w)
                | Some c \<Rightarrow>
                    (case ev_ts e of
                       None \<Rightarrow> (Inl (KeyError ''ts''), w)
                     | Some s \<Rightarrow>
                         (let w1 = w\<lparr>store_log := store_log w @ [Executemany_messages]\<rparr> in
                          case insert_values (messages w) [uid, t, u, c, s] of
                            Inl err \<Rightarrow> (Inl err, w1)
                          | Inr tbl \<Rightarrow>
                              (Inr (), w1\<lparr>messages := tbl,
                                           store_log := store_log w1 @ [Commit]\<rparr>))))))"

text \<open>Lines 258 to 283: what follows the two notices.\<close>

definition route :: "backend \<Rightarrow> string \<Rightarrow> event \<Rightarrow> world \<Rightarrow> (error + unit) \<times> world" where
  "route bk uid e w =
     (case ev_text e of
        None \<Rightarrow> (Inr (), w)
      | Some t \<Rightarrow>
          if ev_subtype e = Some ''bot_message'' then (Inr (), w)
          else
            (case ev_channel e of
               None \<Rightarrow> (Inl (KeyError ''channel''), w)
             | Some ch \<Rightarrow>
                 (case ch of
                    [] \<Rightarrow> (Inl IndexError, w)
                  | c0 # rest \<Rightarrow>
                      if c0 = CHR ''D'' then
                        handle_query bk e
                          (w\<lparr>logs_txt := logs_txt w @ [get_user (ev_user e) @ ''|'' @ t @ [CHR 0x0A]]\<rparr>)
                      else if take 12 t = bot_mention then
                        (case py_split t of
                           a0 # a1 # others \<Rightarrow>
                             if uuid4hex_match a1
                             then handle_query bk (e\<lparr>ev_text := Some (''id:'' @ a1)\<rparr>) w
                             else (Inr (), w)
                         | _ \<Rightarrow> (Inl IndexError, w))
                      else if ev_user e = None then (Inr (), w)
                      else archive uid e w)))"

definition handle_message :: "backend \<Rightarrow> string \<Rightarrow> event \<Rightarrow> world \<Rightarrow> (error + unit) \<times> world" where
  "handle_message bk uid e w =
     (case (if ev_subtype e = Some ''message_deleted'' then deleted_notice bk e w else (Inr (), w)) of
        (Inl err, w1) \<Rightarrow> (Inl err, w1)
      | (Inr u, w1) \<Rightarrow>
          (case (if ev_subtype e = Some ''message_changed'' then changed_notice bk e w1 else (Inr (), w1)) of
             (Inl err, w2) \<Rightarrow> (Inl err, w2)
           | (Inr u, w2) \<Rightarrow> route bk uid e w2))"

section \<open>Auxiliary notions for the properties\<close>

definition touches_messages :: "store_access \<Rightarrow> bool" where
  \<comment> \<open>the statements that read or write the messages table\<close>
  "touches_messages a \<longleftrightarrow> a = Execute_select \<or> a = Executemany_messages"

definition directory_step :: "world \<Rightarrow> world \<Rightarrow> bool" where
  \<comment> \<open>a step that may refresh the directories and nothing else\<close>
  "directory_step w w' \<longleftrightarrow>
     messages w' = messages w \<and> outbox w' = outbox w \<and> logs_txt w' = logs_txt w
     \<and> filter touches_messages (store_log w') = filter touches_messages (store_log w)"


definition literal_token :: "string \<Rightarrow> bool" where
  \<comment> \<open>a token that is search text: of the shape \<^verbatim>\<open>:word:\<close>, or without a colon\<close>
  "literal_token p \<longleftrightarrow> is_emoji p \<or> CHR '':'' \<notin> set p"

definition text_tokens :: "string list \<Rightarrow> string list" where
  "text_tokens ps = filter literal_token ps"

definition bootstrap :: "backend \<Rightarrow> world \<Rightarrow> world" where
  \<comment> \<open>lines 289 and 290: \<^verbatim>\<open>update_users()\<close>, then \<^verbatim>\<open>update_channels()\<close>\<close>
  "bootstrap bk w = snd (update_channels bk (snd (update_users bk w)))"

section \<open>Sample states\<close>

text \<open>
  A workspace with two users, the public channel \<^verbatim>\<open>general\<close> and the private group
  \<^verbatim>\<open>secret\<close>, of which only \<^verbatim>\<open>bob\<close> (\<^verbatim>\<open>U2\<close>) is a member.
\<close>

definition demo_backend :: backend where
  "demo_backend =
     \<lparr>api_users =
        [\<lparr>mb_name = Some ''carol'', mb_id = Some ''U1'', mb_profile = Some None\<rparr>,
         \<lparr>mb_name = Some ''bob'', mb_id = Some ''U2'', mb_profile = Some None\<rparr>],
      api_channels =
        [\<lparr>cv_name = Some ''general'', cv_id = Some ''C1'', cv_is_group = None,
          cv_is_private = Some False, cv_members = Some [''U1'', ''U2'']\<rparr>],
      api_groups =
        [\<lparr>cv_name = Some ''secret'', cv_id = Some ''G1'', cv_is_group = Some True,
          cv_is_private = Some False, cv_members = Some [''U2'']\<rparr>],
      query_time = (\<lambda>n. Inr ''2019-05-01 12:00:00''),
      notice_time = (\<lambda>s. Inr ''05/01/2019, 12:00:00 PM''),
      int_error = (\<lambda>s. ''invalid literal for int() with base 10'')\<rparr>"

definition empty_world :: "table \<Rightarrow> world" where
  \<comment> \<open>the process before the bootstrap, over a given messages table\<close>
  "empty_world t =
     \<lparr>user_id = [], id_user = [], channel_id = [], id_channel = [], channel_info = [],
      messages = t, users = [], channels = [], store_log = [], outbox = [], logs_txt = []\<rparr>"

definition fresh_world :: world where
  \<comment> \<open>started on an empty database file: line 33 creates the messages table\<close>
  "fresh_world = bootstrap demo_backend (empty_world (create_messages_if_not_exists None))"

definition archive_table :: table where
  \<comment> \<open>a messages table with an \<^verbatim>\<open>id\<close> column, already in the database file\<close>
  "archive_table =
     \<lparr>cols = [''id'', ''message'', ''user'', ''channel'', ''timestamp''],
      uniq = [[''channel'', ''timestamp'']],
      rows = [[''11111111-1111-4111-8111-111111111111'', ''hello team'', ''U2'', ''G1'', ''1.0''],
              [''22222222-2222-4222-9222-222222222222'', ''hello world'', ''U2'', ''C1'', ''2.0''],
              [''33333333-3333-4333-a333-333333333333'', ''hello there'', ''U1'', ''C1'', ''3.0'']]\<rparr>"

definition running_world :: world where
  \<comment> \<open>started on a database file that holds \<open>archive_table\<close>\<close>
  "running_world =
     bootstrap demo_backend (empty_world (create_messages_if_not_exists (Some archive_table)))"

definition message_event :: "string \<Rightarrow> string \<Rightarrow> event" where
  \<comment> \<open>a plain message of \<^verbatim>\<open>carol\<close> (\<^verbatim>\<open>U1\<close>) with the given text in the given channel\<close>
  "message_event t c =
     \<lparr>ev_subtype = None, ev_text = Some t, ev_channel = Some c, ev_user = Some ''U1'',
      ev_ts = Some ''1556712000.000200'', ev_message = None, ev_previous_message = None\<rparr>"

definition edit_event :: "string \<Rightarrow> event" where
  \<comment> \<open>\<^verbatim>\<open>message_changed\<close> in the given channel: ``old words'' became ``new words''\<close>
  "edit_event c =
     \<lparr>ev_subtype = Some ''message_changed'', ev_text = None, ev_channel = Some c,
      ev_user = None, ev_ts = Some ''1556712060.000300'',
      ev_message = Some \<lparr>m_text = Some ''new words'', m_user = Some ''U1'',
                          m_ts = Some ''1556712000.000200''\<rparr>,
      ev_previous_message = Some \<lparr>m_text = Some ''old words'', m_user = Some ''U1'',
                                   m_ts = Some ''1556712000.000200''\<rparr>\<rparr>"

section \<open>Lemmas on the string primitives\<close>

lemma length_split_on_from: "length (split_on_from sep cur s) = Suc (count_list s sep)"
  by (induction s arbitrary: cur) auto

lemma length_split_on: "length (split_on sep s) = Suc (count_list s sep)"
  by (simp add: split_on_def length_split_on_from)

lemma py_lower_examples:
  "py_lower ''Hello From:RENE'' = ''hello from:rene''
   \<and> py_lower [CHR 0xC9, CHR 0xD7, CHR 0xDE, CHR 0xDF] = [CHR 0xE9, CHR 0xD7, CHR 0xFE, CHR 0xDF]"
  by code_simp

lemma emoji_two_colons:
  assumes "is_emoji p"
  shows "2 \<le> count_list p CHR '':''"
proof -
  from assms obtain xs where p: "p = CHR '':'' # xs" and xs: "xs \<noteq> []" and l: "last xs = CHR '':''"
    by (cases p) (auto simp: is_emoji_def split: if_splits)
  from xs l have "CHR '':'' \<in> set xs" using last_in_set by metis
  then have "count_list xs CHR '':'' \<noteq> 0" using count_list_0_iff[of xs "CHR '':''"] by simp
  then have "0 < count_list xs CHR '':''" by simp
  with p show ?thesis by simp
qed

section \<open>Frame lemmas: what the directory operations leave alone\<close>

lemma directory_step_refl: "directory_step w w"
  by (simp add: directory_step_def)

lemma directory_step_trans: "directory_step w w1 \<Longrightarrow> directory_step w1 w2 \<Longrightarrow> directory_step w w2"
  by (simp add: directory_step_def)

lemma update_users_step: "update_users bk w = (r, w') \<Longrightarrow> directory_step w w'"
  by (auto simp: update_users_def directory_step_def touches_messages_def Let_def split: sum.splits)


lemma update_channels_step: "update_channels bk w = (r, w') \<Longrightarrow> directory_step w w'"
  by (auto simp: update_channels_def directory_step_def touches_messages_def Let_def
           split: sum.splits prod.splits option.splits)

lemma get_user_name_step: "get_user_name bk uid w = (r, w') \<Longrightarrow> directory_step w w'"
  by (auto simp: get_user_name_def directory_step_refl split: if_splits prod.splits sum.splits
           dest: update_users_step)

lemma get_user_id_step: "get_user_id bk n w = (r, w') \<Longrightarrow> directory_step w w'"
  by (auto simp: get_user_id_def directory_step_refl split: if_splits prod.splits sum.splits
           dest: update_users_step)

lemma get_channel_name_step: "get_channel_name bk uid w = (r, w') \<Longrightarrow> directory_step w w'"
  by (auto simp: get_channel_name_def directory_step_refl split: if_splits prod.splits sum.splits
           dest: update_channels_step)

lemma get_channel_id_step: "get_channel_id bk n w = (r, w') \<Longrightarrow> directory_step w w'"
  by (auto simp: get_channel_id_def directory_step_refl split: if_splits prod.splits sum.splits
           dest: update_channels_step)

lemma parse_token_step: "parse_token bk p pl w = (r, w') \<Longrightarrow> directory_step w w'"
  by (auto simp: parse_token_def Let_def directory_step_refl
           split: if_splits prod.splits sum.splits option.splits
           dest: get_user_id_step get_channel_id_step)

lemma parse_tokens_step: "parse_tokens bk ps pl w = (r, w') \<Longrightarrow> directory_step w w'"
proof (induction ps arbitrary: pl w r w')
  case Nil
  then show ?case by (simp add: directory_step_refl)
next
  case (Cons p ps)
  obtain r1 w1 where t: "parse_token bk p pl w = (r1, w1)" by (cases "parse_token bk p pl w")
  then have s1: "directory_step w w1" by (rule parse_token_step)
  show ?case
  proof (cases r1)
    case (Inl e)
    with t Cons.prems have "w' = w1" by simp
    with s1 show ?thesis by simp
  next
    case (Inr pl1)
    with t Cons.prems have "parse_tokens bk ps pl1 w1 = (r, w')" by simp
    then have "directory_step w1 w'" by (rule Cons.IH)
    with s1 show ?thesis by (rule directory_step_trans)
  qed
qed

lemma parse_query_step: "parse_query bk e w = (r, w') \<Longrightarrow> directory_step w w'"
  by (auto simp: parse_query_def directory_step_refl simp del: parse_tokens.simps
           split: option.splits list.splits if_splits prod.splits sum.splits
           dest: parse_tokens_step)

lemma run_query_frame:
  "run_query q limit w = (r, w') \<Longrightarrow> w' = w\<lparr>store_log := store_log w @ [Execute_select]\<rparr>"
  by (auto simp: run_query_def Let_def split: sum.splits)

lemma render_hit_step: "render_hit bk h w = (r, w') \<Longrightarrow> directory_step w w'"
  by (auto simp: render_hit_def split: prod.splits sum.splits option.splits
           dest: get_user_name_step get_channel_name_step directory_step_trans)

lemma render_hits_step: "render_hits bk e hs w = (r, w') \<Longrightarrow> directory_step w w'"
proof (induction hs arbitrary: w r w')
  case Nil
  then show ?case by (simp add: directory_step_refl)
next
  case (Cons h hs)
  show ?case
  proof (cases "ev_user e")
    case None
    with Cons.prems show ?thesis by (simp add: directory_step_refl)
  next
    case (Some u)
    show ?thesis
    proof (cases "can_query_channel w (h_channel h) u")
      case (Inl err)
      with Some Cons.prems show ?thesis by (simp add: directory_step_refl)
    next
      case (Inr c)
      show ?thesis
      proof (cases "c = Some True")
        case False
        with Some Inr Cons.prems have "render_hits bk e hs w = (r, w')" by simp
        then show ?thesis by (rule Cons.IH)
      next
        case True
        obtain r1 w1 where h: "render_hit bk h w = (r1, w1)" by (cases "render_hit bk h w")
        then have s1: "directory_step w w1" by (rule render_hit_step)
        show ?thesis
        proof (cases r1)
          case (Inl err)
          with Some Inr True h Cons.prems have "w' = w1" by simp
          with s1 show ?thesis by simp
        next
          case (Inr line)
          obtain r2 w2 where t: "render_hits bk e hs w1 = (r2, w2)"
            by (cases "render_hits bk e hs w1")
          then have s2: "directory_step w1 w2" by (rule Cons.IH)
          from Some \<open>can_query_channel w (h_channel h) u = Inr c\<close> True h Inr t Cons.prems
          have "w' = w2" by (auto split: sum.splits)
          with s1 s2 show ?thesis using directory_step_trans by blast
        qed
      qed
    qed
  qed
qed

section \<open>Query language: literal and ignored tokens\<close>

text \<open>
  One round of the loop: a token of the shape \<^verbatim>\<open>:word:\<close> is appended to the text list; a
  token with one colon and a key that is no filter, and a token with several colons
  that is not of that shape, leave the plan and the process state as they were.
\<close>

lemma parse_token_cases:
  "(is_emoji p \<longrightarrow> parse_token bk p pl w = (Inr (pl\<lparr>p_text := p_text pl @ [p]\<rparr>), w))
   \<and> (count_list p CHR '':'' = 1
        \<and> hd (split_on CHR '':'' p) \<notin> {''from'', ''in'', ''sort'', ''limit''}
        \<longrightarrow> parse_token bk p pl w = (Inr pl, w))
   \<and> (2 \<le> count_list p CHR '':'' \<and> \<not> is_emoji p \<longrightarrow> parse_token bk p pl w = (Inr pl, w))"
proof (intro conjI impI)
  assume "is_emoji p"
  then show "parse_token bk p pl w = (Inr (pl\<lparr>p_text := p_text pl @ [p]\<rparr>), w)"
    by (simp add: parse_token_def)
next
  assume a: "count_list p CHR '':'' = 1
    \<and> hd (split_on CHR '':'' p) \<notin> {''from'', ''in'', ''sort'', ''limit''}"
  then have ne: "\<not> is_emoji p" using emoji_two_colons[of p] by auto
  from a have len: "length (split_on CHR '':'' p) = 2" by (simp add: length_split_on)
  then have "split_on CHR '':'' p ! 0 = hd (split_on CHR '':'' p)"
    by (cases "split_on CHR '':'' p") auto
  with a ne len show "parse_token bk p pl w = (Inr pl, w)"
    by (simp add: parse_token_def Let_def)
next
  assume a: "2 \<le> count_list p CHR '':'' \<and> \<not> is_emoji p"
  then have "length (split_on CHR '':'' p) \<noteq> 1" "length (split_on CHR '':'' p) \<noteq> 2"
    by (simp_all add: length_split_on)
  with a show "parse_token bk p pl w = (Inr pl, w)"
    by (simp add: parse_token_def Let_def)
qed

section \<open>Directory cache: the visibility gate\<close>

text \<open>
  Claim C2, as the specification states it, fails: for a channel the cache does not know,
  \<^verbatim>\<open>can_query_channel\<close> does not return true. It falls off the end of the function and
  returns None, which the caller's \<^verbatim>\<open>if\<close> treats as false. Here the channel \<^verbatim>\<open>C9\<close>
  has no visibility metadata and is not in the directory.
\<close>

theorem can_query_channel_unknown_counterexample:
  "map_of (channel_info fresh_world) ''C9'' = None
   \<and> can_query_channel fresh_world ''C9'' ''U1'' = Inr None
   \<and> can_query_channel fresh_world ''C9'' ''U1'' \<noteq> Inr (Some True)"
  by code_simp

text \<open>
  Claim C2, amended. For every channel identifier and user identifier,
  \<^verbatim>\<open>can_query_channel\<close> returns None (falsy) when the channel is not a key of the
  identifier-to-name directory; when the channel is in the directory and has visibility
  metadata, it returns true exactly when the channel is not private or the user is in the
  channel's member list; when the channel is in the directory without metadata, the
  lookup raises KeyError.
\<close>

theorem can_query_channel_cases:
  "(map_of (id_channel w) c = None \<longrightarrow> can_query_channel w c u = Inr None)
   \<and> (map_of (id_channel w) c \<noteq> None \<and> map_of (channel_info w) c = Some v
        \<longrightarrow> can_query_channel w c u = Inr (Some (\<not> is_private v \<or> u \<in> set (members v))))
   \<and> (map_of (id_channel w) c \<noteq> None \<and> map_of (channel_info w) c = None
        \<longrightarrow> can_query_channel w c u = Inl (KeyError c))"
  by (simp add: can_query_channel_def)

theorem can_query_channel_cases_witness:
  "map_of (id_channel fresh_world) ''C9'' = None
   \<and> can_query_channel fresh_world ''C9'' ''U1'' = Inr None
   \<and> map_of (id_channel fresh_world) ''G1'' = Some ''secret''
   \<and> map_of (channel_info fresh_world) ''G1'' = Some \<lparr>is_private = True, members = [''U2'']\<rparr>
   \<and> can_query_channel fresh_world ''G1'' ''U1'' = Inr (Some False)
   \<and> can_query_channel fresh_world ''G1'' ''U2'' = Inr (Some True)
   \<and> map_of (id_channel (fresh_world\<lparr>channel_info := []\<rparr>)) ''G1'' = Some ''secret''
   \<and> can_query_channel (fresh_world\<lparr>channel_info := []\<rparr>) ''G1'' ''U2'' = Inl (KeyError ''G1'')"
proof -
  have a: "map_of (id_channel fresh_world) ''C9'' = None" by code_simp
  have b: "map_of (id_channel fresh_world) ''G1'' = Some ''secret''" by code_simp
  have c: "map_of (channel_info fresh_world) ''G1'' = Some \<lparr>is_private = True, members = [''U2'']\<rparr>"
    by code_simp
  have d: "map_of (id_channel (fresh_world\<lparr>channel_info := []\<rparr>)) ''G1'' = Some ''secret''"
    by code_simp
  have e: "map_of (channel_info (fresh_world\<lparr>channel_info := []\<rparr>)) ''G1'' = None" by simp
  from a have 1: "can_query_channel fresh_world ''C9'' ''U1'' = Inr None"
    using can_query_channel_cases [of fresh_world "''C9''" "''U1''"] by simp
  from b c have 2: "can_query_channel fresh_world ''G1'' ''U1'' = Inr (Some False)"
    using can_query_channel_cases
      [of fresh_world "''G1''" "''U1''" "\<lparr>is_private = True, members = [''U2'']\<rparr>"] by simp
  from b c have 3: "can_query_channel fresh_world ''G1'' ''U2'' = Inr (Some True)"
    using can_query_channel_cases
      [of fresh_world "''G1''" "''U2''" "\<lparr>is_private = True, members = [''U2'']\<rparr>"] by simp
  from d e have 4: "can_query_channel (fresh_world\<lparr>channel_info := []\<rparr>) ''G1'' ''U2'' = Inl (KeyError ''G1'')"
    using can_query_channel_cases [of "fresh_world\<lparr>channel_info := []\<rparr>" "''G1''" "''U2''"] by simp
  from a b c d 1 2 3 4 show ?thesis by simp
qed

text \<open>
  What the caller makes of the None: the list comprehension of \<^verbatim>\<open>handle_query\<close> skips a
  fetched record whose channel the directory does not know.
\<close>

lemma render_hits_skips_unknown_channel:
  assumes "ev_user e = Some u" and "map_of (id_channel w) (h_channel h) = None"
  shows "render_hits bk e (h # hs) w = render_hits bk e hs w"
  using assms by (simp add: can_query_channel_def)

section \<open>Directory cache: private groups\<close>

lemma record_info_append:
  "record_info (xs @ ys) ci =
     (case record_info xs ci of (None, ci1) \<Rightarrow> record_info ys ci1 | (Some e, ci1) \<Rightarrow> (Some e, ci1))"
  by (induction xs arbitrary: ci) (auto split: option.splits)

lemma record_info_other:
  "record_info ms ci = (None, ci') \<Longrightarrow> \<forall>m\<in>set ms. cv_id m \<noteq> Some i \<Longrightarrow> map_of ci' i = map_of ci i"
  by (induction ms arbitrary: ci) (auto split: option.splits)

lemma record_info_last:
  "record_info ms ci = (None, ci') \<Longrightarrow> \<exists>m\<in>set ms. cv_id m = Some i \<Longrightarrow>
     \<exists>m\<in>set ms. cv_id m = Some i \<and>
       (\<exists>p mem. private_flag m = Some p \<and> cv_members m = Some mem
           \<and> map_of ci' i = Some \<lparr>is_private = p, members = mem\<rparr>)"
proof (induction ms arbitrary: ci)
  case Nil
  then show ?case by simp
next
  case (Cons m ms)
  from Cons.prems(1) obtain p mem j n where
    f: "private_flag m = Some p" and mm: "cv_members m = Some mem" and j: "cv_id m = Some j"
    and n: "cv_name m = Some n"
    and rest: "record_info ms ((j, \<lparr>is_private = p, members = mem\<rparr>) # ci) = (None, ci')"
    by (auto split: option.splits)
  show ?case
  proof (cases "\<exists>m'\<in>set ms. cv_id m' = Some i")
    case True
    from Cons.IH[OF rest True] show ?thesis by auto
  next
    case False
    with Cons.prems(2) have ji: "j = i" using j by auto
    from False have "\<forall>m'\<in>set ms. cv_id m' \<noteq> Some i" by simp
    from record_info_other[OF rest this] ji
    have "map_of ci' i = Some \<lparr>is_private = p, members = mem\<rparr>" by simp
    with f mm j ji show ?thesis by auto
  qed
qed

lemma conversation_pairs_ids:
  "conversation_pairs ms = Inr ps \<Longrightarrow> m \<in> set ms \<Longrightarrow> cv_id m = Some i \<Longrightarrow> i \<in> snd ` set ps"
  by (induction ms arbitrary: ps) (auto split: option.splits sum.splits)

text \<open>
  Claim C10. After a channel-directory refresh that completes, every conversation of the
  groups list, each of which carries the \<^verbatim>\<open>is_group\<close> key, has an entry in the visibility
  table whose is-private flag is true, whatever its \<^verbatim>\<open>is_private\<close> field says, and whose
  members are those of a group with that identifier. The visibility gate then admits a
  requester to that channel exactly when the requester is in this member list.
\<close>

theorem groups_recorded_private:
  assumes upd: "update_channels bk w = (Inr (), w')"
    and grp: "\<forall>g\<in>set (api_groups bk). cv_is_group g \<noteq> None"
    and g: "g \<in> set (api_groups bk)" and i: "cv_id g = Some i"
  shows "\<exists>g'\<in>set (api_groups bk). cv_id g' = Some i \<and>
           (\<exists>mem. cv_members g' = Some mem
              \<and> map_of (channel_info w') i = Some \<lparr>is_private = True, members = mem\<rparr>
              \<and> (\<forall>u. can_query_channel w' i u = Inr (Some (u \<in> set mem))))"
proof -
  let ?info = "api_channels bk @ api_groups bk"
  from upd obtain ps ci where
    ps: "conversation_pairs ?info = Inr ps"
    and ri: "record_info ?info (channel_info w) = (None, ci)"
    and idc: "id_channel w' = dict_of (map swap_pair ps)"
    and ci: "channel_info w' = ci"
    by (auto simp: update_channels_def Let_def split: sum.splits prod.splits option.splits)
  from ri obtain ci1 where
    r2: "record_info (api_groups bk) ci1 = (None, ci)"
    by (auto simp: record_info_append split: prod.splits option.splits)
  from g i have "\<exists>m\<in>set (api_groups bk). cv_id m = Some i" by auto
  from record_info_last[OF r2 this] obtain g' p mem where
    g': "g' \<in> set (api_groups bk)" "cv_id g' = Some i" "private_flag g' = Some p"
        "cv_members g' = Some mem" "map_of ci i = Some \<lparr>is_private = p, members = mem\<rparr>"
    by auto
  from grp g'(1) have "cv_is_group g' \<noteq> None" by simp
  with g'(3) have p: "p = True" by (auto simp: private_flag_def)
  from g have "g \<in> set ?info" by simp
  from conversation_pairs_ids[OF ps this i] have "i \<in> fst ` set (rev (map swap_pair ps))"
    by (force simp: swap_pair_def)
  then have known: "map_of (id_channel w') i \<noteq> None"
    by (simp add: idc dict_of_def map_of_eq_None_iff)
  have "\<forall>u. can_query_channel w' i u = Inr (Some (u \<in> set mem))"
    using known g'(5) p ci by (simp add: can_query_channel_def)
  with g' p ci show ?thesis by auto
qed

theorem groups_recorded_private_witness:
  "fst (update_channels demo_backend (empty_world messages_schema)) = Inr ()
   \<and> map (\<lambda>g. (cv_id g, cv_is_group g, cv_is_private g)) (api_groups demo_backend)
       = [(Some ''G1'', Some True, Some False)]
   \<and> map_of (channel_info (snd (update_channels demo_backend (empty_world messages_schema)))) ''G1''
       = Some \<lparr>is_private = True, members = [''U2'']\<rparr>
   \<and> can_query_channel (snd (update_channels demo_backend (empty_world messages_schema))) ''G1'' ''U1''
       = Inr (Some False)
   \<and> can_query_channel (snd (update_channels demo_backend (empty_world messages_schema))) ''G1'' ''U2''
       = Inr (Some True)"
proof -
  let ?w = "empty_world messages_schema"
  let ?w' = "snd (update_channels demo_backend ?w)"
  let ?g = "\<lparr>cv_name = Some ''secret'', cv_id = Some ''G1'', cv_is_group = Some True,
             cv_is_private = Some False, cv_members = Some [''U2'']\<rparr>"
  have f: "fst (update_channels demo_backend ?w) = Inr ()" by code_simp
  then have u: "update_channels demo_backend ?w = (Inr (), ?w')" by (simp add: prod_eq_iff)
  have gs: "api_groups demo_backend = [?g]" by (simp add: demo_backend_def)
  have grp: "\<forall>g\<in>set (api_groups demo_backend). cv_is_group g \<noteq> None" by (simp add: gs)
  have g: "?g \<in> set (api_groups demo_backend)" by (simp add: gs)
  have i: "cv_id ?g = Some ''G1''" by simp
  from groups_recorded_private [OF u grp g i] gs
  have r: "map_of (channel_info ?w') ''G1'' = Some \<lparr>is_private = True, members = [''U2'']\<rparr>
           \<and> (\<forall>u. can_query_channel ?w' ''G1'' u = Inr (Some (u \<in> set [''U2''])))"
    by simp
  then have "can_query_channel ?w' ''G1'' ''U1'' = Inr (Some False)"
    and "can_query_channel ?w' ''G1'' ''U2'' = Inr (Some True)" by simp_all
  with f r gs show ?thesis by simp
qed

section \<open>Archival on the table the program creates\<close>

lemma archive_needs_matching_columns:
  "length (cols (messages w)) \<noteq> 5 \<Longrightarrow> fst (archive uid e w) \<noteq> Inr ()"
  by (auto simp: archive_def insert_values_def Let_def split: option.splits)

text \<open>
  On a table that has the five columns the statement supplies, with the uniqueness
  constraint of line 33, archiving two messages with the same channel and timestamp
  leaves exactly one row for that pair, the later one.
\<close>

lemma insert_twice_keeps_later:
  assumes c: "cols t = [''id'', ''message'', ''user'', ''channel'', ''timestamp'']"
    and u: "uniq t = [[''channel'', ''timestamp'']]"
    and i1: "insert_values t [i1, m1, u1, ch, s] = Inr t1"
    and i2: "insert_values t1 [i2, m2, u2, ch, s] = Inr t2"
  shows "filter (\<lambda>r. cell t2 r ''channel'' = Some ch \<and> cell t2 r ''timestamp'' = Some s) (rows t2)
           = [[i2, m2, u2, ch, s]]"
proof -
  let ?same = "\<lambda>r. cell t r ''channel'' = Some ch \<and> cell t r ''timestamp'' = Some s"
  from i1 c have r1: "rows t1 = filter (\<lambda>r. \<not> conflicts t r [i1, m1, u1, ch, s]) (rows t) @ [[i1, m1, u1, ch, s]]"
    and c1: "cols t1 = cols t" and u1: "uniq t1 = uniq t"
    by (auto simp: insert_values_def split: if_splits)
  from i2 c c1 have r2: "rows t2 = filter (\<lambda>r. \<not> conflicts t1 r [i2, m2, u2, ch, s]) (rows t1) @ [[i2, m2, u2, ch, s]]"
    and c2: "cols t2 = cols t"
    by (auto simp: insert_values_def split: if_splits)
  have cell2: "\<And>r k. cell t2 r k = cell t r k" and cell1: "\<And>r k. cell t1 r k = cell t r k"
    by (simp_all add: cell_def c1 c2)
  have new: "\<And>a b d. ?same [a, b, d, ch, s]"
    by (simp add: cell_def c)
  have conf: "\<And>r. conflicts t1 r [i2, m2, u2, ch, s] \<longleftrightarrow> ?same r"
    using new [of i2 m2 u2] by (auto simp: conflicts_def u1 u cell1)
  have "filter ?same (filter (\<lambda>r. \<not> conflicts t1 r [i2, m2, u2, ch, s]) (rows t1)) = []"
    by (simp add: conf filter_empty_conv)
  then show ?thesis using new [of i2 m2 u2] by (simp add: r2 cell2)
qed

text \<open>
  Claim C1 does not hold of the code. Line 33 creates \<^verbatim>\<open>messages\<close> with four columns and
  no \<^verbatim>\<open>id\<close>, while the archival branch supplies five values, so on a database the
  program has created itself the statement is rejected: the dispatcher raises
  OperationalError before the commit and the table stays empty.
\<close>

theorem archive_rejected_on_created_table:
  "cols (messages fresh_world) = [''message'', ''user'', ''channel'', ''timestamp'']
   \<and> fst (handle_message demo_backend ''0f8fad5b-d9cb-469f-a165-70867728950e''
            (message_event ''hello team'' ''C1'') fresh_world)
       = Inl (OperationalError ''table messages has 4 columns but 5 values were supplied'')
   \<and> rows (messages (snd (handle_message demo_backend ''0f8fad5b-d9cb-469f-a165-70867728950e''
            (message_event ''hello team'' ''C1'') fresh_world))) = []
   \<and> store_log (snd (handle_message demo_backend ''0f8fad5b-d9cb-469f-a165-70867728950e''
            (message_event ''hello team'' ''C1'') fresh_world))
       = store_log fresh_world @ [Executemany_messages]"
  by code_simp

section \<open>Identifier lookups\<close>

text \<open>
  Claim C3 does not hold of the code. The lookup compares with LIKE, so the wildcard in
  \<^verbatim>\<open>id:%\<close> matches every identifier and the reply lists two records. On a database the
  program has created itself the table has no \<^verbatim>\<open>id\<close> column, the statement fails with
  OperationalError, which the handler does not catch, and nothing is replied.
\<close>

theorem id_lookup_wildcard_and_missing_column:
  "handle_query demo_backend (message_event ''id:%'' ''D1'') running_world
     = (Inr (), running_world
          \<lparr>store_log := store_log running_world @ [Execute_select],
           outbox := [(''hello world (@bob, 2019-05-01 12:00:00, #general, id:22222222-2222-4222-9222-222222222222)'' @ [CHR 0x0A]
                       @ ''hello there (@carol, 2019-05-01 12:00:00, #general, id:33333333-3333-4333-a333-333333333333)'', ''D1'')]\<rparr>)
   \<and> fst (handle_query demo_backend (message_event ''id:22222222-2222-4222-9222-222222222222'' ''D1'') fresh_world)
       = Inl (OperationalError ''no such column: id'')
   \<and> outbox (snd (handle_query demo_backend (message_event ''id:22222222-2222-4222-9222-222222222222'' ''D1'') fresh_world)) = []"
  by code_simp

section \<open>Edit notices\<close>

text \<open>
  Claim C8 does not hold of the code. For an edit in a channel that the directory cannot
  name, here the direct-message channel \<^verbatim>\<open>D1\<close>, \<^verbatim>\<open>get_channel_name\<close> returns None and
  the concatenation that builds the notice raises TypeError: no notice is sent. For an
  edit in the listed channel \<^verbatim>\<open>C1\<close> the one notice goes to the operations channel and
  the messages table is untouched.
\<close>

theorem edit_notice_lost_for_unlisted_channel:
  "fst (handle_message demo_backend ''0f8fad5b-d9cb-469f-a165-70867728950e'' (edit_event ''D1'')
          running_world) = Inl TypeError
   \<and> outbox (snd (handle_message demo_backend ''0f8fad5b-d9cb-469f-a165-70867728950e''
          (edit_event ''D1'') running_world)) = []
   \<and> fst (handle_message demo_backend ''0f8fad5b-d9cb-469f-a165-70867728950e'' (edit_event ''C1'')
          running_world) = Inr ()
   \<and> outbox (snd (handle_message demo_backend ''0f8fad5b-d9cb-469f-a165-70867728950e''
          (edit_event ''C1'') running_world))
       = [(''@U1 edited their message (sent on 05/01/2019, 12:00:00 PM) from #general: ''
             @ [CHR 0x0A] @ ''>old words'' @ [CHR 0x0A] @ '' to say: '' @ [CHR 0x0A] @ ''>new words'',
           ops_channel)]
   \<and> messages (snd (handle_message demo_backend ''0f8fad5b-d9cb-469f-a165-70867728950e''
          (edit_event ''C1'') running_world)) = messages running_world"
  by code_simp

section \<open>The query handler and the notices never write the messages table\<close>

lemma reply_frame:
  "reply e m w = (r, w') \<Longrightarrow> messages w' = messages w \<and> store_log w' = store_log w \<and> logs_txt w' = logs_txt w"
  by (auto simp: reply_def send_message_def split: option.splits)

lemma handle_query_try_messages:
  assumes a: "handle_query_try bk e w = (r, w')"
  shows "messages w' = messages w"
proof -
  obtain r1 w1 where p: "parse_query bk e w = (r1, w1)" by (cases "parse_query bk e w")
  then have m1: "messages w1 = messages w" using parse_query_step by (auto simp: directory_step_def)
  show ?thesis
  proof (cases r1)
    case (Inl err)
    with a p m1 show ?thesis by (simp add: handle_query_try_def)
  next
    case (Inr ql)
    obtain q limit where ql: "ql = (q, limit)" by (cases ql)
    obtain r2 w2 where ru: "run_query q limit w1 = (r2, w2)" by (cases "run_query q limit w1")
    then have m2: "messages w2 = messages w1" using run_query_frame by fastforce
    show ?thesis
    proof (cases r2)
      case (Inl err)
      with a p Inr ql ru m1 m2 show ?thesis by (simp add: handle_query_try_def)
    next
      case res: (Inr res)
      obtain r3 w3 where re: "render_hits bk e res w2 = (r3, w3)"
        by (cases "render_hits bk e res w2")
      then have m3: "messages w3 = messages w2"
        using render_hits_step by (auto simp: directory_step_def)
      show ?thesis
      proof (cases r3)
        case (Inl err)
        with a p Inr ql ru res re m1 m2 m3 show ?thesis by (simp add: handle_query_try_def)
      next
        case lines: (Inr lines)
        from a p Inr ql ru res re lines
        have "\<exists>m. reply e m w3 = (r, w')"
          by (simp add: handle_query_try_def Let_def split: if_splits) blast+
        then have "messages w' = messages w3" using reply_frame by blast
        with m1 m2 m3 show ?thesis by simp
      qed
    qed
  qed
qed

lemma handle_query_messages:
  assumes a: "handle_query bk e w = (r, w')"
  shows "messages w' = messages w"
proof -
  obtain r1 w1 where t: "handle_query_try bk e w = (r1, w1)" by (cases "handle_query_try bk e w")
  then have m1: "messages w1 = messages w" by (rule handle_query_try_messages)
  show ?thesis
  proof (cases r1)
    case (Inr u)
    with a t m1 show ?thesis by (simp add: handle_query_def)
  next
    case (Inl err)
    show ?thesis
    proof (cases err)
      case (ValueError msg)
      with a t Inl have "reply e msg w1 = (r, w')" by (simp add: handle_query_def)
      then show ?thesis using reply_frame m1 by fastforce
    qed (use a t Inl m1 in \<open>simp_all add: handle_query_def\<close>)
  qed
qed

lemma deleted_notice_messages:
  assumes a: "deleted_notice bk e w = (r, w')"
  shows "messages w' = messages w"
proof -
  obtain r1 w1 where g: "get_channel_name bk (ev_channel e) w = (r1, w1)"
    by (cases "get_channel_name bk (ev_channel e) w")
  then have m1: "messages w1 = messages w" using get_channel_name_step by (auto simp: directory_step_def)
  from a g have "w' = w \<or> w' = w1 \<or> (\<exists>m. w' = send_message m ops_channel w1)"
    by (simp add: deleted_notice_def split: option.splits sum.splits) blast+
  with m1 show ?thesis by (auto simp: send_message_def)
qed

lemma changed_notice_messages:
  assumes a: "changed_notice bk e w = (r, w')"
  shows "messages w' = messages w"
proof -
  obtain r1 w1 where g: "get_channel_name bk (ev_channel e) w = (r1, w1)"
    by (cases "get_channel_name bk (ev_channel e) w")
  then have m1: "messages w1 = messages w" using get_channel_name_step by (auto simp: directory_step_def)
  from a g have "w' = w \<or> w' = w1 \<or> (\<exists>m. w' = send_message m ops_channel w1)"
    by (simp add: changed_notice_def split: option.splits sum.splits) blast+
  with m1 show ?thesis by (auto simp: send_message_def)
qed

section \<open>Bot mentions\<close>

lemma route_mention:
  assumes t: "ev_text e = Some t" and m: "take 12 t = bot_mention"
    and c: "ev_channel e = Some ch" and d: "ch \<noteq> []" "hd ch \<noteq> CHR ''D''"
  shows "route bk uid e w =
           (if ev_subtype e = Some ''bot_message'' then (Inr (), w)
            else (case py_split t of
                    a0 # a1 # others \<Rightarrow>
                      if uuid4hex_match a1
                      then handle_query bk (e\<lparr>ev_text := Some (''id:'' @ a1)\<rparr>) w
                      else (Inr (), w)
                  | _ \<Rightarrow> (Inl IndexError, w)))"
proof -
  from d obtain c0 rest where ch: "ch = c0 # rest" "c0 \<noteq> CHR ''D''" by (cases ch) auto
  with t m c show ?thesis by (simp add: route_def)
qed

lemma route_mention_messages:
  assumes t: "ev_text e = Some t" and m: "take 12 t = bot_mention"
    and c: "ev_channel e = Some ch" and d: "ch \<noteq> []" "hd ch \<noteq> CHR ''D''"
    and r: "route bk uid e w = (r, w')"
  shows "messages w' = messages w"
proof (cases "ev_subtype e = Some ''bot_message''")
  case True
  with r route_mention [OF t m c d, of bk uid w] show ?thesis by simp
next
  case False
  show ?thesis
  proof (cases "\<exists>a0 a1 others. py_split t = a0 # a1 # others \<and> uuid4hex_match a1")
    case True
    then obtain a0 a1 others where s: "py_split t = a0 # a1 # others" "uuid4hex_match a1" by blast
    with r False route_mention [OF t m c d, of bk uid w]
    have "handle_query bk (e\<lparr>ev_text := Some (''id:'' @ a1)\<rparr>) w = (r, w')" by simp
    then show ?thesis by (rule handle_query_messages)
  next
    case no: False
    with r False route_mention [OF t m c d, of bk uid w]
    have "w' = w" by (auto split: list.splits if_splits)
    then show ?thesis by simp
  qed
qed

text \<open>
  Claim C9, as stated for every event with a mention, fails. A bot message is dropped at
  lines 260 and 261, before the mention is looked at: with a UUID as second token it is
  not handed to the query handler, which would have replied. And for an edit or a
  deletion event that carries a text of its own, the notice comes first: in a channel
  the directory does not list, its refresh writes the channels table before the notice
  fails.
\<close>

theorem mention_in_bot_message_counterexample:
  "uuid4hex_match ''33333333-3333-4333-a333-333333333333''
   \<and> handle_message demo_backend ''0f8fad5b-d9cb-469f-a165-70867728950e''
         ((message_event ''<@UJ8U80MKL> 33333333-3333-4333-a333-333333333333'' ''C1'')
            \<lparr>ev_subtype := Some ''bot_message''\<rparr>) running_world
       = (Inr (), running_world)
   \<and> outbox (snd (handle_query demo_backend
         ((message_event ''<@UJ8U80MKL> 33333333-3333-4333-a333-333333333333'' ''C1'')
            \<lparr>ev_subtype := Some ''bot_message'',
             ev_text := Some (''id:'' @ ''33333333-3333-4333-a333-333333333333'')\<rparr>) running_world))
       = [(''hello there (@carol, 2019-05-01 12:00:00, #general, id:33333333-3333-4333-a333-333333333333)'',
           ''C1'')]
   \<and> fst (handle_message demo_backend ''0f8fad5b-d9cb-469f-a165-70867728950e''
         ((edit_event ''C9'')\<lparr>ev_text := Some ''<@UJ8U80MKL> hello''\<rparr>) running_world)
       = Inl TypeError
   \<and> store_log (snd (handle_message demo_backend ''0f8fad5b-d9cb-469f-a165-70867728950e''
         ((edit_event ''C9'')\<lparr>ev_text := Some ''<@UJ8U80MKL> hello''\<rparr>) running_world))
       = store_log running_world @ [Executemany_channels, Commit]
   \<and> fst (handle_message demo_backend ''0f8fad5b-d9cb-469f-a165-70867728950e''
         ((edit_event ''C9'')\<lparr>ev_subtype := Some ''message_deleted'',
                               ev_text := Some ''<@UJ8U80MKL> hello''\<rparr>) running_world)
       = Inl TypeError
   \<and> store_log (snd (handle_message demo_backend ''0f8fad5b-d9cb-469f-a165-70867728950e''
         ((edit_event ''C9'')\<lparr>ev_subtype := Some ''message_deleted'',
                               ev_text := Some ''<@UJ8U80MKL> hello''\<rparr>) running_world))
       = store_log running_world @ [Executemany_channels, Commit]"
  by code_simp

text \<open>
  Claim C9, amended. An event that has a text beginning with the bot's mention token, in
  a channel whose identifier does not begin with \<^verbatim>\<open>D\<close>, is never archived: whatever the
  dispatcher returns, the messages table is as before. For such an event that is no
  deletion, edit or bot message: when the second whitespace-delimited token matches the
  UUID pattern, the dispatcher does what the query handler does on the event with its
  text replaced by \<^verbatim>\<open>id:\<close> and that token; when the second token does not match, the
  dispatcher returns and the whole process state, the store included, is as before; when
  there is no second token, the subscript \<^verbatim>\<open>args[1]\<close> raises IndexError, again with the
  state as before.
\<close>

theorem mention_is_query_or_dropped:
  assumes t: "ev_text e = Some t" and m: "take 12 t = bot_mention"
    and c: "ev_channel e = Some ch" and d: "ch \<noteq> []" "hd ch \<noteq> CHR ''D''"
  shows "messages (snd (handle_message bk uid e w)) = messages w
    \<and> (ev_subtype e \<notin> {Some ''message_deleted'', Some ''message_changed'', Some ''bot_message''} \<longrightarrow>
         (py_split t = a0 # a1 # others \<and> uuid4hex_match a1 \<longrightarrow>
            handle_message bk uid e w = handle_query bk (e\<lparr>ev_text := Some (''id:'' @ a1)\<rparr>) w)
       \<and> (py_split t = a0 # a1 # others \<and> \<not> uuid4hex_match a1 \<longrightarrow>
            handle_message bk uid e w = (Inr (), w))
       \<and> (length (py_split t) < 2 \<longrightarrow> handle_message bk uid e w = (Inl IndexError, w)))"
proof (intro conjI impI)
  obtain r1 w1 where n1:
    "(if ev_subtype e = Some ''message_deleted'' then deleted_notice bk e w else (Inr (), w)) = (r1, w1)"
    by (cases "if ev_subtype e = Some ''message_deleted'' then deleted_notice bk e w else (Inr (), w)")
  then have m1: "messages w1 = messages w"
    using deleted_notice_messages by (auto split: if_splits)
  obtain r2 w2 where n2:
    "(if ev_subtype e = Some ''message_changed'' then changed_notice bk e w1 else (Inr (), w1)) = (r2, w2)"
    by (cases "if ev_subtype e = Some ''message_changed'' then changed_notice bk e w1 else (Inr (), w1)")
  then have m2: "messages w2 = messages w1"
    using changed_notice_messages by (auto split: if_splits)
  obtain r3 w3 where n3: "route bk uid e w2 = (r3, w3)" by (cases "route bk uid e w2")
  then have m3: "messages w3 = messages w2" by (rule route_mention_messages [OF t m c d])
  have "snd (handle_message bk uid e w) = w1 \<or> snd (handle_message bk uid e w) = w2
        \<or> snd (handle_message bk uid e w) = w3"
    using n1 n2 n3 by (cases r1; cases r2) (simp_all add: handle_message_def)
  with m1 m2 m3 show "messages (snd (handle_message bk uid e w)) = messages w" by auto
next
  assume s: "ev_subtype e \<notin> {Some ''message_deleted'', Some ''message_changed'', Some ''bot_message''}"
  then have hm: "handle_message bk uid e w = route bk uid e w" by (simp add: handle_message_def)
  {
    assume "py_split t = a0 # a1 # others \<and> uuid4hex_match a1"
    with s hm route_mention [OF t m c d, of bk uid w]
    show "handle_message bk uid e w = handle_query bk (e\<lparr>ev_text := Some (''id:'' @ a1)\<rparr>) w"
      by simp
  next
    assume "py_split t = a0 # a1 # others \<and> \<not> uuid4hex_match a1"
    with s hm route_mention [OF t m c d, of bk uid w]
    show "handle_message bk uid e w = (Inr (), w)" by simp
  next
    assume "length (py_split t) < 2"
    then have "py_split t = [] \<or> (\<exists>a. py_split t = [a])"
      by (cases "py_split t"; cases "tl (py_split t)") auto
    with s hm route_mention [OF t m c d, of bk uid w]
    show "handle_message bk uid e w = (Inl IndexError, w)" by auto
  }
qed

theorem mention_is_query_or_dropped_witness:
  "take 12 ''<@UJ8U80MKL> 33333333-3333-4333-A333-333333333333'' = bot_mention
   \<and> uuid4hex_match ''33333333-3333-4333-A333-333333333333''
   \<and> messages (snd (handle_message demo_backend ''0f8fad5b-d9cb-469f-a165-70867728950e''
         (message_event ''<@UJ8U80MKL> 33333333-3333-4333-A333-333333333333'' ''C1'') running_world))
       = messages running_world
   \<and> outbox (snd (handle_message demo_backend ''0f8fad5b-d9cb-469f-a165-70867728950e''
         (message_event ''<@UJ8U80MKL> 33333333-3333-4333-A333-333333333333'' ''C1'') running_world))
       = [(''hello there (@carol, 2019-05-01 12:00:00, #general, id:33333333-3333-4333-a333-333333333333)'',
           ''C1'')]
   \<and> \<not> uuid4hex_match ''hello''
   \<and> handle_message demo_backend ''0f8fad5b-d9cb-469f-a165-70867728950e''
         (message_event ''<@UJ8U80MKL> hello'' ''C1'') running_world = (Inr (), running_world)
   \<and> handle_message demo_backend ''0f8fad5b-d9cb-469f-a165-70867728950e''
         (message_event ''<@UJ8U80MKL>'' ''C1'') running_world = (Inl IndexError, running_world)"
proof -
  let ?uid = "''0f8fad5b-d9cb-469f-a165-70867728950e''"
  let ?t1 = "''<@UJ8U80MKL> 33333333-3333-4333-A333-333333333333''"
  let ?a1 = "''33333333-3333-4333-A333-333333333333''"
  let ?t2 = "''<@UJ8U80MKL> hello''"
  let ?t3 = "''<@UJ8U80MKL>''"
  have sub: "\<And>x. ev_subtype (message_event x ''C1'')
               \<notin> {Some ''message_deleted'', Some ''message_changed'', Some ''bot_message''}"
    by (simp add: message_event_def)
  have etx: "\<And>x. ev_text (message_event x ''C1'') = Some x"
    and chn: "\<And>x. ev_channel (message_event x ''C1'') = Some ''C1''"
    by (simp_all add: message_event_def)
  have d: "''C1'' \<noteq> []" "hd ''C1'' \<noteq> CHR ''D''" by simp_all
  have m1: "take 12 ?t1 = bot_mention" and m2: "take 12 ?t2 = bot_mention"
    and m3: "take 12 ?t3 = bot_mention"
    by (simp_all add: bot_mention_def)
  have s1: "py_split ?t1 = ''<@UJ8U80MKL>'' # ?a1 # []" by code_simp
  have s2: "py_split ?t2 = ''<@UJ8U80MKL>'' # ''hello'' # []" by code_simp
  have s3: "length (py_split ?t3) < 2" by code_simp
  have u1: "uuid4hex_match ?a1" by code_simp
  have u2: "\<not> uuid4hex_match ''hello''" by code_simp
  note th1 = mention_is_query_or_dropped [OF etx m1 chn d, of demo_backend ?uid running_world]
  note th2 = mention_is_query_or_dropped [OF etx m2 chn d, of demo_backend ?uid running_world]
  note th3 = mention_is_query_or_dropped [OF etx m3 chn d, of demo_backend ?uid running_world]
  from th1 have k1: "messages (snd (handle_message demo_backend ?uid (message_event ?t1 ''C1'') running_world))
                      = messages running_world" by simp
  from th1 sub s1 u1
  have q: "handle_message demo_backend ?uid (message_event ?t1 ''C1'') running_world
             = handle_query demo_backend ((message_event ?t1 ''C1'')\<lparr>ev_text := Some (''id:'' @ ?a1)\<rparr>)
                 running_world"
    by blast
  have "outbox (snd (handle_query demo_backend
            ((message_event ?t1 ''C1'')\<lparr>ev_text := Some (''id:'' @ ?a1)\<rparr>) running_world))
          = [(''hello there (@carol, 2019-05-01 12:00:00, #general, id:33333333-3333-4333-a333-333333333333)'',
              ''C1'')]"
    by code_simp
  with q have k2: "outbox (snd (handle_message demo_backend ?uid (message_event ?t1 ''C1'') running_world))
          = [(''hello there (@carol, 2019-05-01 12:00:00, #general, id:33333333-3333-4333-a333-333333333333)'',
              ''C1'')]"
    by simp
  from th2 sub s2 u2
  have k3: "handle_message demo_backend ?uid (message_event ?t2 ''C1'') running_world = (Inr (), running_world)"
    by blast
  from th3 sub s3
  have k4: "handle_message demo_backend ?uid (message_event ?t3 ''C1'') running_world
              = (Inl IndexError, running_world)"
    by blast
  from m1 u1 u2 k1 k2 k3 k4 show ?thesis by blast
qed

section \<open>Failures of the query handler\<close>

lemma handle_query_try_error_outbox:
  assumes a: "handle_query_try bk e w = (Inl err, w')"
  shows "outbox w' = outbox w"
proof -
  obtain r1 w1 where p: "parse_query bk e w = (r1, w1)" by (cases "parse_query bk e w")
  then have m1: "outbox w1 = outbox w" using parse_query_step by (auto simp: directory_step_def)
  show ?thesis
  proof (cases r1)
    case (Inl x)
    with a p m1 show ?thesis by (simp add: handle_query_try_def)
  next
    case (Inr ql)
    obtain q limit where ql: "ql = (q, limit)" by (cases ql)
    obtain r2 w2 where ru: "run_query q limit w1 = (r2, w2)" by (cases "run_query q limit w1")
    then have m2: "outbox w2 = outbox w1" using run_query_frame by fastforce
    show ?thesis
    proof (cases r2)
      case (Inl x)
      with a p Inr ql ru m1 m2 show ?thesis by (simp add: handle_query_try_def)
    next
      case res: (Inr res)
      obtain r3 w3 where re: "render_hits bk e res w2 = (r3, w3)"
        by (cases "render_hits bk e res w2")
      then have m3: "outbox w3 = outbox w2"
        using render_hits_step by (auto simp: directory_step_def)
      show ?thesis
      proof (cases r3)
        case (Inl x)
        with a p Inr ql ru res re m1 m2 m3 show ?thesis by (simp add: handle_query_try_def)
      next
        case lines: (Inr lines)
        from a p Inr ql ru res re lines
        have "\<exists>m. reply e m w3 = (Inl err, w')"
          by (simp add: handle_query_try_def Let_def split: if_splits) blast+
        then have "w' = w3" by (auto simp: reply_def split: option.splits)
        with m1 m2 m3 show ?thesis by simp
      qed
    qed
  qed
qed

text \<open>
  Claim C4, as the specification states it, fails: the handler catches ValueError only.
  A direct message with an empty text has no first token; the subscript
  \<^verbatim>\<open>params[0]\<close> raises IndexError, which leaves the handler, and nothing is sent to the
  requester.
\<close>

theorem empty_query_escapes_counterexample:
  "fst (handle_query demo_backend (message_event '''' ''D1'') running_world) = Inl IndexError
   \<and> outbox (snd (handle_query demo_backend (message_event '''' ''D1'') running_world)) = []"
  by code_simp

text \<open>
  Claim C4, amended. For every query event, every ValueError raised while the query is
  handled (the parser's unknown user, unknown channel, invalid sort order and invalid
  limit among them) is caught inside the handler, and its message is sent to the
  requesting channel as the only message of that query; the handler itself never raises
  ValueError.
\<close>

theorem value_errors_are_replied:
  "fst (handle_query bk e w) \<noteq> Inl (ValueError msg)
   \<and> (handle_query_try bk e w = (Inl (ValueError msg), w1) \<and> ev_channel e = Some ch
        \<longrightarrow> handle_query bk e w = (Inr (), w1\<lparr>outbox := outbox w @ [(msg, ch)]\<rparr>))"
proof (intro conjI impI)
  obtain r1 w' where t: "handle_query_try bk e w = (r1, w')" by (cases "handle_query_try bk e w")
  show "fst (handle_query bk e w) \<noteq> Inl (ValueError msg)"
  proof (cases r1)
    case (Inr u)
    with t show ?thesis by (simp add: handle_query_def)
  next
    case (Inl err)
    with t show ?thesis
      by (cases err) (auto simp: handle_query_def reply_def split: option.splits)
  qed
next
  assume a: "handle_query_try bk e w = (Inl (ValueError msg), w1) \<and> ev_channel e = Some ch"
  then have "outbox w1 = outbox w" using handle_query_try_error_outbox by blast
  with a show "handle_query bk e w = (Inr (), w1\<lparr>outbox := outbox w @ [(msg, ch)]\<rparr>)"
    by (simp add: handle_query_def reply_def send_message_def)
qed

theorem value_errors_are_replied_witness:
  "fst (handle_query_try demo_backend (message_event ''hello from:alice'' ''D1'') running_world)
     = Inl (ValueError ''User alice not found'')
   \<and> fst (handle_query demo_backend (message_event ''hello from:alice'' ''D1'') running_world) = Inr ()
   \<and> outbox (snd (handle_query demo_backend (message_event ''hello from:alice'' ''D1'') running_world))
       = [(''User alice not found'', ''D1'')]
   \<and> outbox (snd (handle_query demo_backend (message_event ''hello in:#nowhere'' ''D1'') running_world))
       = [(''Channel #nowhere not found'', ''D1'')]
   \<and> outbox (snd (handle_query demo_backend (message_event ''hello sort:up'' ''D1'') running_world))
       = [(''Invalid sort order up'', ''D1'')]
   \<and> outbox (snd (handle_query demo_backend (message_event ''hello limit:ten'' ''D1'') running_world))
       = [(''ten not a valid number'', ''D1'')]"
proof -
  have ob: "outbox running_world = []" by code_simp
  have step: "handle_query demo_backend (message_event q ''D1'') running_world
                = (Inr (), (snd (handle_query_try demo_backend (message_event q ''D1'') running_world))
                     \<lparr>outbox := [(msg, ''D1'')]\<rparr>)"
    if f: "fst (handle_query_try demo_backend (message_event q ''D1'') running_world)
             = Inl (ValueError msg)" for q msg
  proof -
    from f have t: "handle_query_try demo_backend (message_event q ''D1'') running_world
        = (Inl (ValueError msg), snd (handle_query_try demo_backend (message_event q ''D1'') running_world))"
      by (simp add: prod_eq_iff)
    have c: "ev_channel (message_event q ''D1'') = Some ''D1''" by (simp add: message_event_def)
    from value_errors_are_replied
      [of demo_backend "message_event q ''D1''" running_world msg
          "snd (handle_query_try demo_backend (message_event q ''D1'') running_world)" "''D1''"]
      t c ob
    show ?thesis by simp
  qed
  have f1: "fst (handle_query_try demo_backend (message_event ''hello from:alice'' ''D1'') running_world)
     = Inl (ValueError ''User alice not found'')" by code_simp
  have f2: "fst (handle_query_try demo_backend (message_event ''hello in:#nowhere'' ''D1'') running_world)
     = Inl (ValueError ''Channel #nowhere not found'')" by code_simp
  have f3: "fst (handle_query_try demo_backend (message_event ''hello sort:up'' ''D1'') running_world)
     = Inl (ValueError ''Invalid sort order up'')" by code_simp
  have f4: "fst (handle_query_try demo_backend (message_event ''hello limit:ten'' ''D1'') running_world)
     = Inl (ValueError ''ten not a valid number'')" by code_simp
  from f1 step [OF f1] step [OF f2] step [OF f3] step [OF f4] show ?thesis by simp
qed

section \<open>Unresolvable author filter\<close>

lemma parse_tokens_append:
  "parse_tokens bk (xs @ ys) pl w =
     (case parse_tokens bk xs pl w of
        (Inl err, w1) \<Rightarrow> (Inl err, w1)
      | (Inr pl1, w1) \<Rightarrow> parse_tokens bk ys pl1 w1)"
  by (induction xs arbitrary: pl w) (auto split: prod.splits sum.splits)

lemma get_user_id_unresolved:
  assumes "get_user_id bk n w = (Inr None, w')"
  shows "store_log w' = store_log w @ [Executemany_users, Commit]"
  using assms
  by (auto simp: get_user_id_def update_users_def Let_def split: if_splits prod.splits sum.splits)

text \<open>
  Claim C5, as the specification states it, fails. Resolving the name goes through a
  directory refresh, and the refresh writes the users table and commits: handling the
  query \<^verbatim>\<open>from:alice\<close> does access the store. A query that contains the filter need not
  even fail with the error that names \<^verbatim>\<open>alice\<close>: when an earlier token fails, its error
  is the reply, and when the first token begins with \<^verbatim>\<open>id:\<close> no other token is read and
  the messages table is searched.
\<close>

theorem unresolved_from_store_access_counterexample:
  "outbox (snd (handle_query demo_backend (message_event ''from:alice'' ''D1'') running_world))
     = [(''User alice not found'', ''D1'')]
   \<and> store_log (snd (handle_query demo_backend (message_event ''from:alice'' ''D1'') running_world))
       = store_log running_world @ [Executemany_users, Commit]
   \<and> store_log (snd (handle_query demo_backend (message_event ''from:alice'' ''D1'') running_world))
       \<noteq> store_log running_world
   \<and> outbox (snd (handle_query demo_backend (message_event ''sort:up from:alice'' ''D1'')
         running_world)) = [(''Invalid sort order up'', ''D1'')]
   \<and> outbox (snd (handle_query demo_backend (message_event ''id:x from:alice'' ''D1'')
         running_world)) = [(''No results found'', ''D1'')]
   \<and> store_log (snd (handle_query demo_backend (message_event ''id:x from:alice'' ''D1'')
         running_world)) = store_log running_world @ [Execute_select]"
  by code_simp

text \<open>
  Claim C5, amended. For every free-text query (one whose first token does not begin with
  \<^verbatim>\<open>id:\<close>) in which the tokens before a token \<^verbatim>\<open>from:<name>\<close> parse without failure and
  \<^verbatim>\<open><name>\<close> does not resolve to a user id after the directory refresh, the handler replies
  \<^verbatim>\<open>User <name> not found\<close> to the requesting channel and nothing else; the messages table
  is neither read nor written while that query is handled, and the refresh that the
  failed lookup triggers writes the users table and commits.
\<close>

theorem unresolved_from_is_reported:
  assumes t: "ev_text e = Some t" and c: "ev_channel e = Some ch"
    and sp: "py_split (py_lower t) = pre @ tok # post"
    and free: "take 3 (hd (pre @ [tok])) \<noteq> ''id:''"
    and before: "parse_tokens bk pre initial_plan w = (Inr pl, w1)"
    and tok: "split_on CHR '':'' tok = [''from'', v]"
    and miss: "get_user_id bk (py_strip (py_replace CHR ''@'' v)) w1 = (Inr None, w2)"
  shows "handle_query bk e w = (Inr (), send_message (''User '' @ v @ '' not found'') ch w2)
    \<and> outbox w2 = outbox w
    \<and> messages w2 = messages w
    \<and> filter touches_messages (store_log w2) = filter touches_messages (store_log w)
    \<and> store_log w2 = store_log w1 @ [Executemany_users, Commit]"
proof -
  from tok have "length (split_on CHR '':'' tok) = 2" by simp
  then have "count_list tok CHR '':'' = 1" by (simp add: length_split_on)
  then have ne: "\<not> is_emoji tok" using emoji_two_colons [of tok] by auto
  from ne tok miss
  have pt: "parse_token bk tok pl w1 = (Inl (ValueError (''User '' @ v @ '' not found'')), w2)"
    by (simp add: parse_token_def Let_def)
  then have "parse_tokens bk (tok # post) pl w1 = (Inl (ValueError (''User '' @ v @ '' not found'')), w2)"
    by simp
  with before
  have all: "parse_tokens bk (pre @ tok # post) initial_plan w
               = (Inl (ValueError (''User '' @ v @ '' not found'')), w2)"
    by (simp add: parse_tokens_append)
  obtain p0 ps where l: "pre @ tok # post = p0 # ps" and p0: "p0 = hd (pre @ [tok])"
    by (cases pre) auto
  from t sp l p0 free all
  have pq: "parse_query bk e w = (Inl (ValueError (''User '' @ v @ '' not found'')), w2)"
    by (simp add: parse_query_def del: parse_tokens.simps)
  then have tr: "handle_query_try bk e w = (Inl (ValueError (''User '' @ v @ '' not found'')), w2)"
    by (simp add: handle_query_try_def)
  with c have 1: "handle_query bk e w = (Inr (), send_message (''User '' @ v @ '' not found'') ch w2)"
    by (simp add: handle_query_def reply_def)
  from pq have "directory_step w w2" by (rule parse_query_step)
  then have 2: "outbox w2 = outbox w" "messages w2 = messages w"
    "filter touches_messages (store_log w2) = filter touches_messages (store_log w)"
    by (simp_all add: directory_step_def)
  from miss have 3: "store_log w2 = store_log w1 @ [Executemany_users, Commit]"
    by (rule get_user_id_unresolved)
  from 1 2 3 show ?thesis by simp
qed

theorem unresolved_from_is_reported_witness:
  "py_split (py_lower ''Hello from:@Alice sort:desc'') = [''hello''] @ ''from:@alice'' # [''sort:desc'']
   \<and> fst (get_user_id demo_backend ''alice'' running_world) = Inr None
   \<and> fst (handle_query demo_backend (message_event ''Hello from:@Alice sort:desc'' ''D1'') running_world)
       = Inr ()
   \<and> outbox (snd (handle_query demo_backend (message_event ''Hello from:@Alice sort:desc'' ''D1'')
         running_world)) = [(''User @alice not found'', ''D1'')]
   \<and> messages (snd (handle_query demo_backend (message_event ''Hello from:@Alice sort:desc'' ''D1'')
         running_world)) = messages running_world
   \<and> store_log (snd (handle_query demo_backend (message_event ''Hello from:@Alice sort:desc'' ''D1'')
         running_world)) = store_log running_world @ [Executemany_users, Commit]"
proof -
  let ?e = "message_event ''Hello from:@Alice sort:desc'' ''D1''"
  let ?w2 = "snd (get_user_id demo_backend ''alice'' running_world)"
  have t: "ev_text ?e = Some ''Hello from:@Alice sort:desc''" and c: "ev_channel ?e = Some ''D1''"
    by (simp_all add: message_event_def)
  have sp: "py_split (py_lower ''Hello from:@Alice sort:desc'')
              = [''hello''] @ ''from:@alice'' # [''sort:desc'']" by code_simp
  have free: "take 3 (hd ([''hello''] @ [''from:@alice''])) \<noteq> ''id:''" by simp
  have before: "parse_tokens demo_backend [''hello''] initial_plan running_world
                  = (Inr (initial_plan\<lparr>p_text := [''hello'']\<rparr>), running_world)"
    by (simp add: parse_token_def is_emoji_def split_on_def initial_plan_def)
  have tok: "split_on CHR '':'' ''from:@alice'' = [''from'', ''@alice'']" by (simp add: split_on_def)
  have nm: "py_strip (py_replace CHR ''@'' ''@alice'') = ''alice''" by code_simp
  have f: "fst (get_user_id demo_backend ''alice'' running_world) = Inr None" by code_simp
  then have miss: "get_user_id demo_backend (py_strip (py_replace CHR ''@'' ''@alice'')) running_world
                     = (Inr None, ?w2)"
    by (simp add: nm prod_eq_iff)
  have ob: "outbox running_world = []" by code_simp
  note th = unresolved_from_is_reported [OF t c sp free before tok miss]
  from th have 1: "handle_query demo_backend ?e running_world
                    = (Inr (), send_message (''User '' @ ''@alice'' @ '' not found'') ''D1'' ?w2)"
    by simp
  from th ob have 2: "outbox ?w2 = []" "messages ?w2 = messages running_world"
    "store_log ?w2 = store_log running_world @ [Executemany_users, Commit]" by simp_all
  from sp f 1 2 show ?thesis by (simp add: send_message_def)
qed

section \<open>Query language: the text list of a free-text query\<close>

lemma split_on_from_no_sep: "sep \<notin> set s \<Longrightarrow> split_on_from sep cur s = [cur @ s]"
  by (induction s arbitrary: cur) auto

lemma split_on_no_sep: "sep \<notin> set s \<Longrightarrow> split_on sep s = [s]"
  by (simp add: split_on_def split_on_from_no_sep)

lemma parse_token_text:
  assumes "parse_token bk p pl w = (Inr pl1, w1)"
  shows "p_text pl1 = p_text pl @ text_tokens [p]"
proof (cases "is_emoji p")
  case True
  with assms show ?thesis by (auto simp: parse_token_def text_tokens_def literal_token_def)
next
  case False
  show ?thesis
  proof (cases "CHR '':'' \<in> set p")
    case False
    then have "split_on CHR '':'' p = [p]" by (rule split_on_no_sep)
    with assms \<open>\<not> is_emoji p\<close> False show ?thesis
      by (auto simp: parse_token_def text_tokens_def literal_token_def)
  next
    case True
    then have "count_list p CHR '':'' \<noteq> 0" by (simp add: count_list_0_iff)
    then have "length (split_on CHR '':'' p) \<noteq> 1" by (simp add: length_split_on)
    with assms \<open>\<not> is_emoji p\<close> True show ?thesis
      by (auto simp: parse_token_def text_tokens_def literal_token_def Let_def
               split: if_splits prod.splits sum.splits option.splits)
  qed
qed

lemma parse_tokens_text:
  "parse_tokens bk ps pl w = (Inr pl1, w1) \<Longrightarrow> p_text pl1 = p_text pl @ text_tokens ps"
proof (induction ps arbitrary: pl w)
  case Nil
  then show ?case by (simp add: text_tokens_def)
next
  case (Cons p ps)
  obtain r2 w2 where t: "parse_token bk p pl w = (r2, w2)" by (cases "parse_token bk p pl w")
  show ?case
  proof (cases r2)
    case (Inl err)
    with t Cons.prems show ?thesis by simp
  next
    case (Inr pl2)
    with t Cons.prems have "parse_tokens bk ps pl2 w2 = (Inr pl1, w1)" by simp
    from Cons.IH [OF this] have "p_text pl1 = p_text pl2 @ text_tokens ps" .
    moreover from t Inr have "p_text pl2 = p_text pl @ text_tokens [p]"
      using parse_token_text by simp
    ultimately show ?thesis by (simp add: text_tokens_def)
  qed
qed

lemma parse_tokens_skip:
  assumes ign: "\<And>pl w. parse_token bk p pl w = (Inr pl, w)"
  shows "parse_tokens bk (pre @ p # post) pl0 w0 = parse_tokens bk (pre @ post) pl0 w0"
  by (simp add: parse_tokens_append ign split: prod.splits sum.splits)

lemma parse_query_free_text:
  assumes t: "ev_text e = Some t" and sp: "py_split (py_lower t) = ps"
    and ne: "ps \<noteq> []" and free: "take 3 (hd ps) \<noteq> ''id:''"
  shows "parse_query bk e w =
           (case parse_tokens bk ps initial_plan w of
              (Inl err, w1) \<Rightarrow> (Inl err, w1)
            | (Inr pl, w1) \<Rightarrow> (Inr (free_text_query pl, p_limit pl), w1))"
proof -
  from ne obtain p0 rest where ps: "ps = p0 # rest" by (cases ps) auto
  with t sp free show ?thesis by (simp add: parse_query_def del: parse_tokens.simps)
qed

text \<open>
  Claim C7. Take a free-text query, that is one whose first token does not begin with
  \<^verbatim>\<open>id:\<close>, and any one of its tokens. If the token is of the shape \<^verbatim>\<open>:word:\<close> (more than
  two characters, first and last a colon) and the query parses, the text list of the
  query is made of the literal tokens before it, the token itself as it is, and the
  literal tokens after it, joined by single spaces inside the wildcards. If the token
  has one colon and a key that is none of \<^verbatim>\<open>from\<close>, \<^verbatim>\<open>in\<close>, \<^verbatim>\<open>sort\<close>, \<^verbatim>\<open>limit\<close>, or has
  two or more colons without being of the \<^verbatim>\<open>:word:\<close> shape, the query parses exactly as
  the same token list without that token does: same text, same filters, same limit,
  same failure if any, same process state.
\<close>

theorem free_text_token_literal_or_ignored:
  assumes t: "ev_text e = Some t"
    and sp: "py_split (py_lower t) = pre @ p # post"
    and free: "take 3 (hd (pre @ [p])) \<noteq> ''id:''"
  shows "(is_emoji p \<and> parse_query bk e w = (Inr (q, limit), w1)
            \<longrightarrow> (\<exists>usr chn srt.
                   q = FreeText (''%'' @ py_join '' '' (text_tokens pre @ p # text_tokens post) @ ''%'')
                         usr chn srt))
    \<and> ((count_list p CHR '':'' = 1
          \<and> hd (split_on CHR '':'' p) \<notin> {''from'', ''in'', ''sort'', ''limit''})
        \<or> (2 \<le> count_list p CHR '':'' \<and> \<not> is_emoji p)
            \<longrightarrow> parse_query bk e w =
                  (case parse_tokens bk (pre @ post) initial_plan w of
                     (Inl err, w2) \<Rightarrow> (Inl err, w2)
                   | (Inr pl, w2) \<Rightarrow> (Inr (free_text_query pl, p_limit pl), w2)))"
proof -
  have ne: "pre @ p # post \<noteq> []" by simp
  have hd: "hd (pre @ p # post) = hd (pre @ [p])" by (cases pre) auto
  note pq = parse_query_free_text [OF t sp ne, unfolded hd, OF free]
  show ?thesis
  proof (intro conjI impI)
    assume a: "is_emoji p \<and> parse_query bk e w = (Inr (q, limit), w1)"
    with pq [of bk w] obtain pl where
      pl: "parse_tokens bk (pre @ p # post) initial_plan w = (Inr pl, w1)"
      and q: "q = free_text_query pl"
      by (auto split: prod.splits sum.splits)
    from a have "text_tokens (pre @ p # post) = text_tokens pre @ p # text_tokens post"
      by (simp add: text_tokens_def literal_token_def)
    with parse_tokens_text [OF pl]
    have "p_text pl = text_tokens pre @ p # text_tokens post" by (simp add: initial_plan_def)
    with q show "\<exists>usr chn srt.
        q = FreeText (''%'' @ py_join '' '' (text_tokens pre @ p # text_tokens post) @ ''%'') usr chn srt"
      by (simp add: free_text_query_def)
  next
    assume a: "(count_list p CHR '':'' = 1
          \<and> hd (split_on CHR '':'' p) \<notin> {''from'', ''in'', ''sort'', ''limit''})
        \<or> (2 \<le> count_list p CHR '':'' \<and> \<not> is_emoji p)"
    have ign: "parse_token bk p pl w = (Inr pl, w)" for pl w
      using a parse_token_cases [of p bk pl w] by blast
    have "parse_tokens bk (pre @ p # post) initial_plan w = parse_tokens bk (pre @ post) initial_plan w"
      by (rule parse_tokens_skip) (rule ign)
    with pq [of bk w] show "parse_query bk e w =
                  (case parse_tokens bk (pre @ post) initial_plan w of
                     (Inl err, w2) \<Rightarrow> (Inl err, w2)
                   | (Inr pl, w2) \<Rightarrow> (Inr (free_text_query pl, p_limit pl), w2))"
      by simp
  qed
qed

theorem free_text_token_literal_or_ignored_witness:
  "py_split (py_lower ''Hello :TADA: has:link from:bob:now world'')
     = [''hello''] @ '':tada:'' # [''has:link'', ''from:bob:now'', ''world'']
   \<and> is_emoji '':tada:''
   \<and> text_tokens [''hello''] @ '':tada:'' # text_tokens [''has:link'', ''from:bob:now'', ''world'']
       = [''hello'', '':tada:'', ''world'']
   \<and> count_list ''has:link'' CHR '':'' = 1 \<and> hd (split_on CHR '':'' ''has:link'') = ''has''
   \<and> count_list ''from:bob:now'' CHR '':'' = 2 \<and> \<not> is_emoji ''from:bob:now''
   \<and> parse_query demo_backend (message_event ''Hello :TADA: has:link from:bob:now world'' ''D1'')
         running_world
       = (Inr (FreeText ''%hello :tada: world%'' None None None, 10), running_world)
   \<and> parse_query demo_backend (message_event ''Hello :TADA: has:link from:bob:now world'' ''D1'')
         running_world
       = parse_query demo_backend (message_event ''Hello :TADA: from:bob:now world'' ''D1'') running_world
   \<and> parse_query demo_backend (message_event ''Hello :TADA: has:link from:bob:now world'' ''D1'')
         running_world
       = parse_query demo_backend (message_event ''Hello :TADA: has:link world'' ''D1'') running_world"
proof -
  let ?t = "''Hello :TADA: has:link from:bob:now world''"
  let ?e = "message_event ?t ''D1''"
  have tx: "ev_text ?e = Some ?t" by (simp add: message_event_def)
  have s1: "py_split (py_lower ?t) = [''hello''] @ '':tada:'' # [''has:link'', ''from:bob:now'', ''world'']"
    by code_simp
  have s2: "py_split (py_lower ?t) = [''hello'', '':tada:''] @ ''has:link'' # [''from:bob:now'', ''world'']"
    by code_simp
  have s3: "py_split (py_lower ?t) = [''hello'', '':tada:'', ''has:link''] @ ''from:bob:now'' # [''world'']"
    by code_simp
  have f1: "take 3 (hd ([''hello''] @ ['':tada:''])) \<noteq> ''id:''"
    and f2: "take 3 (hd ([''hello'', '':tada:''] @ [''has:link''])) \<noteq> ''id:''"
    and f3: "take 3 (hd ([''hello'', '':tada:'', ''has:link''] @ [''from:bob:now''])) \<noteq> ''id:''"
    by simp_all
  have em: "is_emoji '':tada:''" by (simp add: is_emoji_def)
  have tt: "text_tokens [''hello''] @ '':tada:'' # text_tokens [''has:link'', ''from:bob:now'', ''world'']
              = [''hello'', '':tada:'', ''world'']" by code_simp
  have k: "count_list ''has:link'' CHR '':'' = 1" and h: "hd (split_on CHR '':'' ''has:link'') = ''has''"
    and c: "count_list ''from:bob:now'' CHR '':'' = 2" and m: "\<not> is_emoji ''from:bob:now''"
    by (simp_all add: split_on_def is_emoji_def)
  let ?q = "FreeText ''%hello :tada: world%'' None None None"
  have r1: "parse_query demo_backend ?e running_world = (Inr (?q, 10), running_world)" by code_simp
  from free_text_token_literal_or_ignored [OF tx s1 f1, where q = ?q and bk = demo_backend and w = running_world and limit = 10
      and ?w1.0 = running_world]
    em r1 tt
  have a1: "\<exists>usr chn srt.
      ?q = FreeText (''%'' @ py_join '' '' [''hello'', '':tada:'', ''world''] @ ''%'') usr chn srt"
    by simp
  let ?rest = "\<lambda>ps. (case parse_tokens demo_backend ps initial_plan running_world of
                     (Inl err, w2) \<Rightarrow> (Inl err, w2)
                   | (Inr pl, w2) \<Rightarrow> (Inr (free_text_query pl, p_limit pl), w2))"
  from free_text_token_literal_or_ignored [OF tx s2 f2, where q = ?q and bk = demo_backend and w = running_world and limit = 10
      and ?w1.0 = running_world] k h
  have b2: "parse_query demo_backend ?e running_world
              = ?rest ([''hello'', '':tada:''] @ [''from:bob:now'', ''world''])" by simp
  from free_text_token_literal_or_ignored [OF tx s3 f3, where q = ?q and bk = demo_backend and w = running_world and limit = 10
      and ?w1.0 = running_world] c m
  have b3: "parse_query demo_backend ?e running_world
              = ?rest ([''hello'', '':tada:'', ''has:link''] @ [''world''])" by simp
  have e2: "parse_query demo_backend (message_event ''Hello :TADA: from:bob:now world'' ''D1'') running_world
              = ?rest ([''hello'', '':tada:''] @ [''from:bob:now'', ''world''])" by code_simp
  have e3: "parse_query demo_backend (message_event ''Hello :TADA: has:link world'' ''D1'') running_world
              = ?rest ([''hello'', '':tada:'', ''has:link''] @ [''world''])" by code_simp
  from s1 em tt k h c m r1 a1 b2 b3 e2 e3 show ?thesis by simp
qed

section \<open>The result limit and the visibility filter\<close>









end
